theory Spec2Isabelle
  imports Complex_Main
begin

section \<open>Common types\<close>

text \<open>
  Shallow embedding of \<^verbatim>\<open>eradiate/scenes/biosphere/_discrete.py\<close>.
  Python floats are modelled as real numbers, physical quantities by their magnitude in
  metres, and every exception the source raises is a value of type \<open>error\<close>. Where the
  source can produce a float that is not a number, the value is an \<open>npfloat\<close>.
\<close>

datatype error =
    ValueError string
  | ValueErrorAtLine nat
  | TypeError string
  | IndexError string
  | RuntimeError string
  | FileNotFoundError
  | ZeroDivisionError
  | RecursionError
  | UnitsError
  | FieldError string

text \<open>
  \<open>ValueErrorAtLine n\<close> is a \<^verbatim>\<open>ValueError\<close> whose message names line \<open>n\<close> of the file being
  read; \<open>FieldError f\<close> is the \<^verbatim>\<open>Exception\<close> "cannot compute field f" of the parameter
  classes; \<open>UnitsError\<close> is raised when a value of the wrong dimension is assigned to a
  unit-enabled field. \<open>error_line\<close> is the line number an error message identifies, if any.
\<close>

definition error_line :: "error \<Rightarrow> nat option" where
  "error_line e = (case e of ValueErrorAtLine n \<Rightarrow> Some n | _ \<Rightarrow> None)"

type_synonym vec3 = "real \<times> real \<times> real"

text \<open>
  The pseudo-random generator \<^verbatim>\<open>rng\<close> is a stream of draws \<open>u 0, u 1, ...\<close> together with
  the index of the next draw. \<^verbatim>\<open>rng.random(3)\<close> consumes three draws, \<^verbatim>\<open>rng.random()\<close> one.
\<close>

type_synonym rng = "nat \<Rightarrow> real"

definition random3 :: "rng \<Rightarrow> nat \<Rightarrow> vec3 \<times> nat" where
  "random3 u k = ((u k, u (k + 1), u (k + 2)), k + 3)"

text \<open>
  The generator whose first draws are the listed ones and whose later draws are all 0.
\<close>

definition draws_of :: "real list \<Rightarrow> rng" where
  "draws_of xs = (\<lambda>j. if j < length xs then xs ! j else 0)"

text \<open>\<^verbatim>\<open>np.empty((n, 3))\<close>: an array of \<open>n\<close> rows whose contents are not yet meaningful.\<close>

definition np_empty :: "nat \<Rightarrow> vec3 list" where
  "np_empty n = replicate n (0, 0, 0)"

text \<open>
  A float of numpy: a real number, or a value that is not finite (\<^verbatim>\<open>nan\<close> or an infinity).
  Every operation used below gives a non-finite result on a non-finite operand.
\<close>

datatype npfloat = Finite real | NonFinite

text \<open>
  A numpy array of dimension 0, of dimension 1, or of dimension 2 with its number of
  columns and its rows (each of that length); arrays of higher dimension are not
  modelled. \<open>shape\<close> is \<^verbatim>\<open>a.shape\<close>, \<open>np_len\<close> is \<^verbatim>\<open>len(a)\<close>, which raises on dimension 0.
  An empty array can have shape \<open>(0,)\<close> (the array made from the list \<^verbatim>\<open>[]\<close>) or
  \<open>(0, 3)\<close>, and the two behave differently.
\<close>

datatype 'a ndarray =
    Array0 'a
  | Array1 "'a list"
  | Array2 nat "'a list list"

definition shape :: "'a ndarray \<Rightarrow> nat list" where
  "shape a = (case a of Array0 x \<Rightarrow> [] | Array1 xs \<Rightarrow> [length xs]
              | Array2 ncols rows \<Rightarrow> [length rows, ncols])"

definition np_len :: "'a ndarray \<Rightarrow> error + nat" where
  "np_len a = (case a of Array0 x \<Rightarrow> Inl (TypeError ''len() of unsized object'')
               | Array1 xs \<Rightarrow> Inr (length xs)
               | Array2 ncols rows \<Rightarrow> Inr (length rows))"

text \<open>An array of shape \<open>(n, 3)\<close>: \<^verbatim>\<open>a.ndim == 2 and a.shape[1] == 3\<close>.\<close>

definition is_n3 :: "'a ndarray \<Rightarrow> bool" where
  "is_n3 a = (case a of Array2 ncols rows \<Rightarrow> ncols = 3 | _ \<Rightarrow> False)"

text \<open>The rows of a 2-dimensional array (no rows for the other arrays).\<close>

definition rows_of :: "'a ndarray \<Rightarrow> 'a list list" where
  "rows_of a = (case a of Array2 ncols rows \<Rightarrow> rows | _ \<Rightarrow> [])"

text \<open>
  \<^verbatim>\<open>np.array(rows)\<close> on a list of lists of numbers: the empty list gives shape \<open>(0,)\<close>, rows
  of one length \<open>c\<close> give shape \<open>(n, c)\<close>, and rows of different lengths do not give an
  array of numbers (numpy raises, or in older versions the validators of the
  constructors do).
\<close>

definition np_array :: "'a list list \<Rightarrow> error + 'a ndarray" where
  "np_array rows =
     (case rows of
        [] \<Rightarrow> Inr (Array1 [])
      | row # _ \<Rightarrow>
          if list_all (\<lambda>r. length r = length row) rows then Inr (Array2 (length row) rows)
          else Inl (ValueError ''inhomogeneous shape''))"

text \<open>An array of \<open>n\<close> rows written as triples, as an \<open>(n, 3)\<close> array.\<close>

definition array_of_triples :: "('a \<times> 'a \<times> 'a) list \<Rightarrow> 'a ndarray" where
  "array_of_triples ps = Array2 3 (map (\<lambda>(x, y, z). [x, y, z]) ps)"

text \<open>
  Adding a 1-dimensional array \<open>v\<close> of three numbers to the rows of a 2-dimensional array
  with \<open>ncols\<close> columns, by numpy's broadcasting: rows of three numbers are added entry by
  entry, a single column is added to each entry of \<open>v\<close>, any other number of columns
  raises.
\<close>

definition broadcast_error :: error where
  "broadcast_error = ValueError ''operands could not be broadcast together''"

definition add_vector_rows :: "nat \<Rightarrow> real list list \<Rightarrow> real list \<Rightarrow> error + real list list" where
  "add_vector_rows ncols rows v =
     (if ncols = 3 then Inr (map (\<lambda>row. map2 (+) row v) rows)
      else if ncols = 1 then Inr (map (\<lambda>row. map (\<lambda>w. hd row + w) v) rows)
      else Inl broadcast_error)"

section \<open>Collision-avoidance placement\<close>

text \<open>
  The candidate position computed from three draws, as in both cuboid samplers.
\<close>

definition pos_candidate :: "real \<Rightarrow> real \<Rightarrow> vec3 \<Rightarrow> vec3" where
  "pos_candidate l_horizontal l_vertical rand =
     (case rand of (r0, r1, r2) \<Rightarrow>
        (r0 * l_horizontal - 0.5 * l_horizontal,
         r1 * l_horizontal - 0.5 * l_horizontal,
         r2 * l_vertical))"

text \<open>
  \<^verbatim>\<open>aabbtree.AABB\<close> is a list of \<open>(lower, upper)\<close> limits, one pair per axis. Two boxes
  overlap when, on every axis, each lower limit is strictly below the other's upper limit
  (the library's default, \<^verbatim>\<open>closed=False\<close>). The tree is represented by the list of the
  boxes added so far; \<^verbatim>\<open>does_overlap\<close> holds when some stored box overlaps the query.
\<close>

type_synonym aabb = "(real \<times> real) list"

definition leaf_aabb :: "real \<Rightarrow> vec3 \<Rightarrow> aabb" where
  "leaf_aabb leaf_radius p =
     (case p of (x, y, z) \<Rightarrow>
        [(x - leaf_radius, x + leaf_radius),
         (y - leaf_radius, y + leaf_radius),
         (z - leaf_radius, z + leaf_radius)])"

definition overlaps :: "aabb \<Rightarrow> aabb \<Rightarrow> bool" where
  "overlaps a b =
     list_all (\<lambda>((min1, max1), (min2, max2)). min1 < max2 \<and> min2 < max1) (zip a b)"

definition does_overlap :: "aabb list \<Rightarrow> aabb \<Rightarrow> bool" where
  "does_overlap tree b = list_ex (\<lambda>a. overlaps a b) tree"

definition tree_add :: "aabb list \<Rightarrow> aabb \<Rightarrow> aabb list" where
  "tree_add tree b = tree @ [b]"

text \<open>
  The state of the placement loops: the position array, the tree and the index of the next
  draw of the generator.
\<close>

type_synonym placer_state = "vec3 list \<times> aabb list \<times> nat"

text \<open>
  The inner loop \<^verbatim>\<open>for j in range(n_attempts)\<close> for leaf \<open>i\<close>. The second argument counts
  the attempts that remain; \<open>None\<close> is the loop running to its end without \<^verbatim>\<open>break\<close>.
\<close>

fun attempt_loop ::
  "rng \<Rightarrow> real \<Rightarrow> real \<Rightarrow> real \<Rightarrow> nat \<Rightarrow> nat \<Rightarrow> placer_state \<Rightarrow> placer_state option" where
  "attempt_loop u lh lv leaf_radius i 0 s = None"
| "attempt_loop u lh lv leaf_radius i (Suc m) (positions, tree, k) =
     (let (rand, k') = random3 u k;
          cand = pos_candidate lh lv rand;
          box = leaf_aabb leaf_radius cand
      in if i = 0 then Some (positions[i := cand], tree_add tree box, k')
         else if \<not> does_overlap tree box
              then Some (positions[i := cand], tree_add tree box, k')
              else attempt_loop u lh lv leaf_radius i m (positions, tree, k'))"

definition too_dense :: error where
  "too_dense = RuntimeError ''unable to place all leaves: the specified canopy might be too dense''"

text \<open>
  The outer loop \<^verbatim>\<open>for i in range(n_leaves)\<close>, started at leaf \<open>i\<close> with \<open>m\<close> leaves to go.
  The \<^verbatim>\<open>else\<close> clause of the inner loop raises.
\<close>

fun place_loop ::
  "rng \<Rightarrow> real \<Rightarrow> real \<Rightarrow> real \<Rightarrow> nat \<Rightarrow> nat \<Rightarrow> nat \<Rightarrow> placer_state \<Rightarrow> error + placer_state" where
  "place_loop u lh lv leaf_radius n_attempts 0 i s = Inr s"
| "place_loop u lh lv leaf_radius n_attempts (Suc m) i s =
     (case attempt_loop u lh lv leaf_radius i n_attempts s of
        None \<Rightarrow> Inl too_dense
      | Some s' \<Rightarrow> place_loop u lh lv leaf_radius n_attempts m (Suc i) s')"

text \<open>
  \<^verbatim>\<open>_leaf_cloud_positions_cuboid_avoid_overlap\<close>. The result is the position array and the
  index of the next draw. The extents and the radius are the magnitudes in metres that the
  function body receives from its decorator. A negative leaf count makes \<^verbatim>\<open>np.empty\<close>
  raise; a non-positive attempt budget gives an empty \<^verbatim>\<open>range\<close>.
\<close>

definition leaf_cloud_positions_cuboid_avoid_overlap ::
  "int \<Rightarrow> real \<Rightarrow> real \<Rightarrow> real \<Rightarrow> int \<Rightarrow> rng \<Rightarrow> nat \<Rightarrow> error + (vec3 list \<times> nat)" where
  "leaf_cloud_positions_cuboid_avoid_overlap n_leaves l_horizontal l_vertical leaf_radius
       n_attempts u k =
     (if n_leaves < 0 then Inl (ValueError ''negative dimensions are not allowed'')
      else case place_loop u l_horizontal l_vertical leaf_radius (nat n_attempts)
                  (nat n_leaves) 0 (np_empty (nat n_leaves), [], k) of
             Inl e \<Rightarrow> Inl e
           | Inr (positions, tree, k') \<Rightarrow> Inr (positions, k'))"

text \<open>Leaf \<open>i\<close>'s \<open>j\<close>-th candidate when the generator stands at draw \<open>k\<close>, and its box.\<close>

definition candidate_box :: "rng \<Rightarrow> real \<Rightarrow> real \<Rightarrow> real \<Rightarrow> nat \<Rightarrow> nat \<Rightarrow> aabb" where
  "candidate_box u lh lv leaf_radius k j =
     leaf_aabb leaf_radius (pos_candidate lh lv (fst (random3 u (k + 3 * j))))"

text \<open>
  The loop invariant of the placement: after \<open>i\<close> leaves the tree holds exactly the boxes
  of the first \<open>i\<close> positions, and no two of them overlap.
\<close>

definition placer_inv :: "real \<Rightarrow> nat \<Rightarrow> placer_state \<Rightarrow> bool" where
  "placer_inv leaf_radius i s =
     (case s of (positions, tree, k) \<Rightarrow>
        length tree = i \<and>
        (\<forall>a < i. tree ! a = leaf_aabb leaf_radius (positions ! a)) \<and>
        (\<forall>a < i. \<forall>b < i. a \<noteq> b \<longrightarrow> \<not> overlaps (tree ! a) (tree ! b)))"

text \<open>
  The box obtained by inflating a position by the leaf radius along every axis, as a set
  of points, and its interior. These are stated from the geometry, not from the boxes the
  placement builds.
\<close>

definition closed_box :: "real \<Rightarrow> vec3 \<Rightarrow> vec3 set" where
  "closed_box leaf_radius p =
     (case p of (x, y, z) \<Rightarrow>
        {(a, b, c). x - leaf_radius \<le> a \<and> a \<le> x + leaf_radius \<and>
                    y - leaf_radius \<le> b \<and> b \<le> y + leaf_radius \<and>
                    z - leaf_radius \<le> c \<and> c \<le> z + leaf_radius})"

definition interior_box :: "real \<Rightarrow> vec3 \<Rightarrow> vec3 set" where
  "interior_box leaf_radius p =
     (case p of (x, y, z) \<Rightarrow>
        {(a, b, c). x - leaf_radius < a \<and> a < x + leaf_radius \<and>
                    y - leaf_radius < b \<and> b < y + leaf_radius \<and>
                    z - leaf_radius < c \<and> c < z + leaf_radius})"

section \<open>Orientation sampler\<close>

text \<open>
  Operations of numpy on floats. Dividing by zero gives \<^verbatim>\<open>nan\<close> or an infinity (with a
  warning, not an exception); the other operations are those of the reals on finite
  operands.
\<close>

definition np_divide :: "real \<Rightarrow> real \<Rightarrow> npfloat" where
  "np_divide a b = (if b = 0 then NonFinite else Finite (a / b))"

definition np_mul :: "npfloat \<Rightarrow> npfloat \<Rightarrow> npfloat" where
  "np_mul a b = (case a of Finite x \<Rightarrow> (case b of Finite y \<Rightarrow> Finite (x * y) | NonFinite \<Rightarrow> NonFinite)
                 | NonFinite \<Rightarrow> NonFinite)"

definition np_sin :: "npfloat \<Rightarrow> npfloat" where
  "np_sin a = (case a of Finite x \<Rightarrow> Finite (sin x) | NonFinite \<Rightarrow> NonFinite)"

definition np_cos :: "npfloat \<Rightarrow> npfloat" where
  "np_cos a = (case a of Finite x \<Rightarrow> Finite (cos x) | NonFinite \<Rightarrow> NonFinite)"

text \<open>\<^verbatim>\<open>np.rad2deg\<close>.\<close>

definition rad2deg :: "real \<Rightarrow> real" where
  "rad2deg x = x * (180 / pi)"

definition np_rad2deg :: "npfloat \<Rightarrow> npfloat" where
  "np_rad2deg a = (case a of Finite x \<Rightarrow> Finite (rad2deg x) | NonFinite \<Rightarrow> NonFinite)"

text \<open>
  \<^verbatim>\<open>_inversebeta\<close>: a rejection loop \<^verbatim>\<open>while True\<close>; \<open>None\<close> is the loop never returning.
  The draws of \<^verbatim>\<open>rng.random\<close> lie in \<open>[0, 1)\<close> and \<open>mu\<close>, \<open>nu\<close> are positive; there \<^verbatim>\<open>np.power\<close>
  is \<open>powr\<close>. The value returned is the numpy division \<^verbatim>\<open>s1 / s\<close>, which is \<^verbatim>\<open>nan\<close> when
  both draws are 0.
\<close>

partial_function (option) inversebeta ::
  "real \<Rightarrow> real \<Rightarrow> rng \<Rightarrow> nat \<Rightarrow> (error + npfloat \<times> nat) option" where
  "inversebeta mu nu u k =
     (if mu = 0 \<or> nu = 0 then Some (Inl ZeroDivisionError)
      else let s1 = u k powr (1 / mu);
               s2 = u (k + 1) powr (1 / nu);
               s = s1 + s2
           in if s \<le> 1 then Some (Inr (np_divide s1 s, k + 2))
              else inversebeta mu nu u (k + 2))"

text \<open>
  The row written for one leaf: \<^verbatim>\<open>[sin(theta) cos(phi), sin(theta) sin(phi), cos(theta)]\<close>.
  The azimuth is a finite number; the inclination is what \<^verbatim>\<open>_inversebeta\<close> returned.
\<close>

type_synonym nrow = "npfloat \<times> npfloat \<times> npfloat"

definition orientation :: "npfloat \<Rightarrow> real \<Rightarrow> nrow" where
  "orientation theta phi =
     (np_mul (np_sin theta) (Finite (cos phi)),
      np_mul (np_sin theta) (Finite (sin phi)),
      np_cos theta)"

text \<open>\<^verbatim>\<open>np.empty((n, 3))\<close> for the orientation array.\<close>

definition np_empty_rows :: "nat \<Rightarrow> nrow list" where
  "np_empty_rows n = replicate n (Finite 0, Finite 0, Finite 0)"

text \<open>
  The loop \<^verbatim>\<open>for i in range(np.shape(orientations)[0])\<close> of \<^verbatim>\<open>_leaf_cloud_orientations\<close>,
  at row \<open>i\<close> with \<open>m\<close> rows to go.
\<close>

fun orient_loop ::
  "real \<Rightarrow> real \<Rightarrow> rng \<Rightarrow> nat \<Rightarrow> nat \<Rightarrow> nrow list \<times> nat \<Rightarrow> (error + nrow list \<times> nat) option" where
  "orient_loop mu nu u 0 i s = Some (Inr s)"
| "orient_loop mu nu u (Suc m) i (orientations, k) =
     (case inversebeta mu nu u k of
        None \<Rightarrow> None
      | Some (Inl e) \<Rightarrow> Some (Inl e)
      | Some (Inr (x, k1)) \<Rightarrow>
          (let theta = np_rad2deg x;
               phi = u k1 * 360
           in orient_loop mu nu u m (Suc i)
                (orientations[i := orientation theta phi], k1 + 1)))"

text \<open>\<^verbatim>\<open>_leaf_cloud_orientations\<close>.\<close>

definition leaf_cloud_orientations ::
  "int \<Rightarrow> real \<Rightarrow> real \<Rightarrow> rng \<Rightarrow> nat \<Rightarrow> (error + nrow list \<times> nat) option" where
  "leaf_cloud_orientations n_leaves mu nu u k =
     (if n_leaves < 0 then Some (Inl (ValueError ''negative dimensions are not allowed''))
      else orient_loop mu nu u (nat n_leaves) 0 (np_empty_rows (nat n_leaves), k))"




section \<open>Discrete canopy and padding\<close>

text \<open>
  \<^verbatim>\<open>InstancedCanopyElement\<close> and \<^verbatim>\<open>DiscreteCanopy\<close>. The canopy element is kept abstract;
  \<^verbatim>\<open>instance_positions\<close> is an array of numbers (the class default is the array made from
  \<^verbatim>\<open>[]\<close>, of shape \<open>(0,)\<close>), \<^verbatim>\<open>size\<close> a 3-vector, both as magnitudes in the configured
  length unit.
\<close>

record 'e instanced_canopy_element =
  canopy_element :: 'e
  instance_positions :: "real ndarray"


text \<open>
  \<^verbatim>\<open>_instance_positions_validator\<close>: it raises when
  \<^verbatim>\<open>value.shape and value.shape[0] > 0 and value.shape[1] != 3\<close>; for a non-empty
  1-dimensional array the third test itself raises. The constructor runs it, and so does
  an assignment to the field.
\<close>

definition instance_positions_validator :: "real ndarray \<Rightarrow> error + unit" where
  "instance_positions_validator v =
     (case v of
        Array0 x \<Rightarrow> Inr ()
      | Array1 xs \<Rightarrow>
          if 0 < length xs then Inl (IndexError ''tuple index out of range'') else Inr ()
      | Array2 ncols rows \<Rightarrow>
          if 0 < length rows \<and> ncols \<noteq> 3
          then Inl (ValueError ''must be an array of shape (n, 3)'')
          else Inr ())"

definition InstancedCanopyElement ::
  "'e \<Rightarrow> real ndarray \<Rightarrow> error + 'e instanced_canopy_element" where
  "InstancedCanopyElement element positions =
     (case instance_positions_validator positions of
        Inl e \<Rightarrow> Inl e
      | Inr _ \<Rightarrow> Inr \<lparr>canopy_element = element, instance_positions = positions\<rparr>)"










section \<open>Leaf cloud\<close>

text \<open>
  \<^verbatim>\<open>LeafCloud\<close>. Positions and orientations are arrays (the class default is the array made
  from \<^verbatim>\<open>[]\<close>, of shape \<open>(0,)\<close>); an orientation entry can be a float that is not a number.
  The two spectra are kept abstract.
\<close>

record 's leaf_cloud =
  cloud_id :: string
  leaf_positions :: "real ndarray"
  leaf_orientations :: "npfloat ndarray"
  leaf_radii :: "real list"
  leaf_reflectance :: 's
  leaf_transmittance :: 's

text \<open>
  Modelled from the spec: \<^verbatim>\<open>validators.is_positive\<close> (module \<^verbatim>\<open>eradiate/validators.py\<close>) is
  not among the sources; the specification describes the leaf radii as positive scalars.
\<close>

definition is_positive :: "real \<Rightarrow> bool" where
  "is_positive r = (0 < r)"

text \<open>
  \<^verbatim>\<open>_positions_orientations_validator\<close>: an array of length 0 is accepted whatever its
  shape; any other array must have shape \<open>(N, 3)\<close>.
\<close>

definition shape_error :: error where
  "shape_error = ValueError ''shape should be (N, 3)''"

definition positions_orientations_validator :: "'a ndarray \<Rightarrow> error + unit" where
  "positions_orientations_validator v =
     (case np_len v of
        Inl e \<Rightarrow> Inl e
      | Inr n \<Rightarrow> if n = 0 then Inr () else if is_n3 v then Inr () else Inl shape_error)"

text \<open>
  \<^verbatim>\<open>_positions_orientations_radii_validator\<close>: the three arrays must have the same length.
\<close>

definition same_length_error :: error where
  "same_length_error =
     ValueError ''leaf_positions, leaf_orientations and leaf_radii must have the same length''"

definition positions_orientations_radii_validator ::
  "real ndarray \<Rightarrow> npfloat ndarray \<Rightarrow> real list \<Rightarrow> error + unit" where
  "positions_orientations_radii_validator positions orientations radii =
     (case np_len positions of
        Inl e \<Rightarrow> Inl e
      | Inr a \<Rightarrow>
          (case np_len orientations of
             Inl e \<Rightarrow> Inl e
           | Inr b \<Rightarrow>
               if a = b \<and> b = length radii then Inr () else Inl same_length_error))"

text \<open>
  The generated constructor with its validators, in the order in which they run: the
  shape and the lengths for the positions, the shape for the orientations (the lengths
  again, with the same outcome), \<^verbatim>\<open>is_positive\<close> for every radius.
\<close>

definition LeafCloud ::
  "string \<Rightarrow> real ndarray \<Rightarrow> npfloat ndarray \<Rightarrow> real list \<Rightarrow> 's \<Rightarrow> 's \<Rightarrow>
   error + 's leaf_cloud" where
  "LeafCloud ident positions orientations radii reflectance transmittance =
     (case positions_orientations_validator positions of
        Inl e \<Rightarrow> Inl e
      | Inr _ \<Rightarrow>
     (case positions_orientations_radii_validator positions orientations radii of
        Inl e \<Rightarrow> Inl e
      | Inr _ \<Rightarrow>
     (case positions_orientations_validator orientations of
        Inl e \<Rightarrow> Inl e
      | Inr _ \<Rightarrow>
          if list_all is_positive radii
          then Inr \<lparr>cloud_id = ident, leaf_positions = positions,
                    leaf_orientations = orientations, leaf_radii = radii,
                    leaf_reflectance = reflectance, leaf_transmittance = transmittance\<rparr>
          else Inl (ValueError ''leaf_radii must be positive''))))"

text \<open>
  \<^verbatim>\<open>attr.evolve(self, leaf_positions=...)\<close>: a new object from the constructor, with the
  other fields of \<open>self\<close>.
\<close>

definition evolve_leaf_positions :: "'s leaf_cloud \<Rightarrow> real ndarray \<Rightarrow> error + 's leaf_cloud" where
  "evolve_leaf_positions self positions =
     LeafCloud (cloud_id self) positions (leaf_orientations self) (leaf_radii self)
       (leaf_reflectance self) (leaf_transmittance self)"

definition reshape_error :: error where
  "reshape_error = ValueError ''cannot reshape array into shape (1, 3)''"

definition shape_mismatch :: error where
  "shape_mismatch = ValueError ''shapes xyz and self.leaf_positions do not match''"

text \<open>
  \<^verbatim>\<open>self.leaf_positions + xyz.reshape((1, 3))\<close> for the three numbers \<open>v\<close> of \<^verbatim>\<open>xyz\<close>, by
  numpy's broadcasting: the result has shape \<open>(n, 3)\<close>, and an array of shape \<open>(0,)\<close> cannot
  be broadcast against \<open>(1, 3)\<close>.
\<close>

definition add_broadcast :: "real ndarray \<Rightarrow> real list \<Rightarrow> error + real ndarray" where
  "add_broadcast positions v =
     (case positions of
        Array0 x \<Rightarrow> Inr (Array2 3 [map (\<lambda>w. x + w) v])
      | Array1 xs \<Rightarrow>
          if length xs = 3 then Inr (Array2 3 [map2 (+) xs v])
          else if length xs = 1 then Inr (Array2 3 [map (\<lambda>w. hd xs + w) v])
          else Inl broadcast_error
      | Array2 ncols rows \<Rightarrow>
          (case add_vector_rows ncols rows v of
             Inl e \<Rightarrow> Inl e
           | Inr rows' \<Rightarrow> Inr (Array2 3 rows')))"

text \<open>
  \<^verbatim>\<open>LeafCloud.translated\<close>. For \<^verbatim>\<open>xyz.ndim <= 1\<close> the argument is reshaped to \<open>(1, 3)\<close>,
  which raises unless it has three entries, and is then broadcast over the rows;
  otherwise its shape must equal that of \<^verbatim>\<open>leaf_positions\<close>, and the two arrays are
  added entry by entry.
\<close>

definition translated :: "'s leaf_cloud \<Rightarrow> real ndarray \<Rightarrow> error + 's leaf_cloud" where
  "translated self xyz =
     (case xyz of
        Array0 x \<Rightarrow> Inl reshape_error
      | Array1 v \<Rightarrow>
          if length v = 3
          then (case add_broadcast (leaf_positions self) v of
                  Inl e \<Rightarrow> Inl e
                | Inr positions \<Rightarrow> evolve_leaf_positions self positions)
          else Inl reshape_error
      | Array2 ncols rows \<Rightarrow>
          if shape xyz = shape (leaf_positions self)
          then evolve_leaf_positions self
                 (Array2 ncols (map2 (map2 (+)) (rows_of (leaf_positions self)) rows))
          else Inl shape_mismatch)"

text \<open>
  A leaf cloud that the constructor accepts, that is, an object of the class.
\<close>

definition constructed :: "'s leaf_cloud \<Rightarrow> bool" where
  "constructed lc =
     (LeafCloud (cloud_id lc) (leaf_positions lc) (leaf_orientations lc) (leaf_radii lc)
        (leaf_reflectance lc) (leaf_transmittance lc) = Inr lc)"

section \<open>Parameter resolution for the cuboid leaf cloud\<close>

text \<open>
  \<^verbatim>\<open>CuboidLeafCloudParams\<close>: the fields that have no default, each either set or
  \<^verbatim>\<open>None\<close>. Field \<^verbatim>\<open>_x\<close> of the source is \<open>raw_x\<close>.
\<close>

record cuboid_params =
  raw_n_leaves :: "int option"
  raw_leaf_radius :: "real option"
  raw_l_horizontal :: "real option"
  raw_l_vertical :: "real option"
  raw_lai :: "real option"
  raw_hdo :: "real option"
  raw_hvr :: "real option"

text \<open>
  Python's \<^verbatim>\<open>int\<close> on a float: truncation towards zero.
\<close>

definition py_int :: "real \<Rightarrow> int" where
  "py_int x = (if 0 \<le> x then \<lfloor>x\<rfloor> else \<lceil>x\<rceil>)"

text \<open>
  The fields declared with \<^verbatim>\<open>pinttr.ib(units=...)\<close> hold quantities, given here by their
  magnitude in the unit of the field. pinttr validates every value assigned to such a
  field: its units must be compatible with those of the field, otherwise the assignment
  raises a \<^verbatim>\<open>UnitsError\<close>. The dimension of a quantity is the exponent of the length in its
  units: 1 for a length (the leaf radius, the extents, \<^verbatim>\<open>hdo\<close>), 0 for a dimensionless
  quantity (the leaf area index) and for a plain number; it adds up under products and
  powers and is halved by \<^verbatim>\<open>np.sqrt\<close>.
\<close>

definition length_dim :: int where
  "length_dim = 1"

definition dimensionless :: int where
  "dimensionless = 0"

definition has_compatible_units :: "int \<Rightarrow> int \<Rightarrow> error + unit" where
  "has_compatible_units field_dim value_dim =
     (if value_dim = field_dim then Inr () else Inl UnitsError)"

text \<open>
  The properties \<^verbatim>\<open>n_leaves\<close>, \<^verbatim>\<open>lai\<close>, \<^verbatim>\<open>leaf_radius\<close> and \<^verbatim>\<open>l_horizontal\<close>. Each returns
  the field when it is set; otherwise it computes it from the other properties, read in
  the order in which the source's expression evaluates them, caches it in the object and
  returns it. The properties call each other, so the first argument bounds the depth of
  the calls: running out is Python's \<^verbatim>\<open>RecursionError\<close>. Dividing by a zero float raises.
  The value computed for a field with units is validated when it is assigned:
  \<^verbatim>\<open>np.pi * (leaf_radius / l_horizontal) ** 2 * n_leaves\<close> is dimensionless,
  \<^verbatim>\<open>np.sqrt(lai / (n_leaves * np.pi)) * l_horizontal\<close> is a length, and
  \<^verbatim>\<open>np.pi * leaf_radius ** 2 * n_leaves / lai\<close> is an area. \<^verbatim>\<open>_n_leaves\<close> is a plain field.
\<close>

fun cuboid_n_leaves :: "nat \<Rightarrow> cuboid_params \<Rightarrow> error + int \<times> cuboid_params"
  and cuboid_lai :: "nat \<Rightarrow> cuboid_params \<Rightarrow> error + real \<times> cuboid_params"
  and cuboid_leaf_radius :: "nat \<Rightarrow> cuboid_params \<Rightarrow> error + real \<times> cuboid_params"
  and cuboid_l_horizontal :: "nat \<Rightarrow> cuboid_params \<Rightarrow> error + real \<times> cuboid_params"
where
  "cuboid_n_leaves 0 self = Inl RecursionError"
| "cuboid_n_leaves (Suc d) self =
     (case raw_n_leaves self of
        Some n \<Rightarrow> Inr (n, self)
      | None \<Rightarrow>
          (case cuboid_lai d self of Inl e \<Rightarrow> Inl e | Inr (a, s1) \<Rightarrow>
          (case cuboid_l_horizontal d s1 of Inl e \<Rightarrow> Inl e | Inr (l, s2) \<Rightarrow>
          (case cuboid_leaf_radius d s2 of Inl e \<Rightarrow> Inl e | Inr (r, s3) \<Rightarrow>
             if r = 0 then Inl ZeroDivisionError
             else let v = py_int (a * (l / r)\<^sup>2 / pi)
                  in Inr (v, s3\<lparr>raw_n_leaves := Some v\<rparr>)))))"
| "cuboid_lai 0 self = Inl RecursionError"
| "cuboid_lai (Suc d) self =
     (case raw_lai self of
        Some a \<Rightarrow> Inr (a, self)
      | None \<Rightarrow>
          (case cuboid_leaf_radius d self of Inl e \<Rightarrow> Inl e | Inr (r, s1) \<Rightarrow>
          (case cuboid_l_horizontal d s1 of Inl e \<Rightarrow> Inl e | Inr (l, s2) \<Rightarrow>
             if l = 0 then Inl ZeroDivisionError
             else (case cuboid_n_leaves d s2 of Inl e \<Rightarrow> Inl e | Inr (n, s3) \<Rightarrow>
               let v = pi * (r / l)\<^sup>2 * of_int n
               in (case has_compatible_units dimensionless (2 * (length_dim - length_dim)) of
                     Inl e \<Rightarrow> Inl e
                   | Inr _ \<Rightarrow> Inr (v, s3\<lparr>raw_lai := Some v\<rparr>))))))"
| "cuboid_leaf_radius 0 self = Inl RecursionError"
| "cuboid_leaf_radius (Suc d) self =
     (case raw_leaf_radius self of
        Some r \<Rightarrow> Inr (r, self)
      | None \<Rightarrow>
          (case cuboid_lai d self of Inl e \<Rightarrow> Inl e | Inr (a, s1) \<Rightarrow>
          (case cuboid_n_leaves d s1 of Inl e \<Rightarrow> Inl e | Inr (n, s2) \<Rightarrow>
             if of_int n * pi = (0::real) then Inl ZeroDivisionError
             else (case cuboid_l_horizontal d s2 of Inl e \<Rightarrow> Inl e | Inr (l, s3) \<Rightarrow>
               let v = sqrt (a / (of_int n * pi)) * l
               in (case has_compatible_units length_dim (dimensionless div 2 + length_dim) of
                     Inl e \<Rightarrow> Inl e
                   | Inr _ \<Rightarrow> Inr (v, s3\<lparr>raw_leaf_radius := Some v\<rparr>))))))"
| "cuboid_l_horizontal 0 self = Inl RecursionError"
| "cuboid_l_horizontal (Suc d) self =
     (case raw_l_horizontal self of
        Some l \<Rightarrow> Inr (l, self)
      | None \<Rightarrow>
          (case cuboid_leaf_radius d self of Inl e \<Rightarrow> Inl e | Inr (r, s1) \<Rightarrow>
          (case cuboid_n_leaves d s1 of Inl e \<Rightarrow> Inl e | Inr (n, s2) \<Rightarrow>
          (case cuboid_lai d s2 of Inl e \<Rightarrow> Inl e | Inr (a, s3) \<Rightarrow>
             if a = 0 then Inl ZeroDivisionError
             else let v = pi * r\<^sup>2 * of_int n / a
                  in (case has_compatible_units length_dim (2 * length_dim - dimensionless) of
                        Inl e \<Rightarrow> Inl e
                      | Inr _ \<Rightarrow> Inr (v, s3\<lparr>raw_l_horizontal := Some v\<rparr>))))))"

text \<open>
  Arithmetic on a field that is \<^verbatim>\<open>None\<close>.
\<close>

definition none_operand :: error where
  "none_operand = TypeError ''unsupported operand type(s): NoneType''"

text \<open>
  The property \<^verbatim>\<open>l_vertical\<close>; the properties \<^verbatim>\<open>hdo\<close> and \<^verbatim>\<open>hvr\<close> return their fields,
  and \<^verbatim>\<open>hvr\<close> is a plain number. The value \<^verbatim>\<open>lai * hdo ** 3 / (np.pi * leaf_radius ** 2 * hvr)\<close>
  is a length.
\<close>

definition cuboid_l_vertical :: "nat \<Rightarrow> cuboid_params \<Rightarrow> error + real \<times> cuboid_params" where
  "cuboid_l_vertical d self =
     (case d of 0 \<Rightarrow> Inl RecursionError | Suc d' \<Rightarrow>
     (case raw_l_vertical self of
        Some v \<Rightarrow> Inr (v, self)
      | None \<Rightarrow>
          (case cuboid_lai d' self of Inl e \<Rightarrow> Inl e | Inr (a, s1) \<Rightarrow>
          (case raw_hdo s1 of None \<Rightarrow> Inl none_operand | Some h \<Rightarrow>
          (case cuboid_leaf_radius d' s1 of Inl e \<Rightarrow> Inl e | Inr (r, s2) \<Rightarrow>
          (case raw_hvr s2 of None \<Rightarrow> Inl none_operand | Some hv \<Rightarrow>
             if pi * r\<^sup>2 * hv = 0 then Inl ZeroDivisionError
             else let v = a * h ^ 3 / (pi * r\<^sup>2 * hv)
                  in (case has_compatible_units length_dim
                             (dimensionless + 3 * length_dim - 2 * length_dim) of
                        Inl e \<Rightarrow> Inl e
                      | Inr _ \<Rightarrow> Inr (v, s2\<lparr>raw_l_vertical := Some v\<rparr>))))))))"

text \<open>
  The interpreter's default recursion limit.
\<close>

definition recursion_limit :: nat where
  "recursion_limit = 1000"

text \<open>
  \<^verbatim>\<open>update\<close>, run by \<^verbatim>\<open>__attrs_post_init__\<close>: every field is read once, in the order of
  their declaration, and any exception is replaced by one naming the field.
\<close>

definition cuboid_update :: "cuboid_params \<Rightarrow> error + cuboid_params" where
  "cuboid_update self =
     (case cuboid_n_leaves recursion_limit self of
        Inl e \<Rightarrow> Inl (FieldError ''n_leaves'') | Inr (n, s1) \<Rightarrow>
     (case cuboid_leaf_radius recursion_limit s1 of
        Inl e \<Rightarrow> Inl (FieldError ''leaf_radius'') | Inr (r, s2) \<Rightarrow>
     (case cuboid_l_horizontal recursion_limit s2 of
        Inl e \<Rightarrow> Inl (FieldError ''l_horizontal'') | Inr (l, s3) \<Rightarrow>
     (case cuboid_l_vertical recursion_limit s3 of
        Inl e \<Rightarrow> Inl (FieldError ''l_vertical'') | Inr (v, s4) \<Rightarrow>
     (case cuboid_lai recursion_limit s4 of
        Inl e \<Rightarrow> Inl (FieldError ''lai'') | Inr (a, s5) \<Rightarrow> Inr s5)))))"

section \<open>File loaders\<close>

text \<open>
  A text file is the list of its lines, a line the list of its whitespace-separated
  tokens (the result of \<^verbatim>\<open>line.split()\<close>). A token either is the text of a number, given
  by its value, or is not. The file system maps a path to the file found there, if any.
\<close>

datatype token = Num real | Word string

type_synonym text_file = "token list list"

type_synonym filesystem = "string \<Rightarrow> text_file option"

text \<open>
  \<^verbatim>\<open>float(x)\<close> on a token.
\<close>

definition py_float :: "token \<Rightarrow> error + real" where
  "py_float t = (case t of Num r \<Rightarrow> Inr r
                 | Word w \<Rightarrow> Inl (ValueError ''could not convert string to float''))"

text \<open>
  \<^verbatim>\<open>[float(x) for x in line.split()]\<close>: the first token that is not a number raises.
\<close>

fun floats :: "token list \<Rightarrow> error + real list" where
  "floats [] = Inr []"
| "floats (t # ts) =
     (case py_float t of
        Inl e \<Rightarrow> Inl e
      | Inr v \<Rightarrow> (case floats ts of Inl e \<Rightarrow> Inl e | Inr vs \<Rightarrow> Inr (v # vs)))"

text \<open>
  The loop of \<^verbatim>\<open>LeafCloud.from_file\<close> over the lines: \<^verbatim>\<open>values[0]\<close> raises on an empty
  list, the slices \<^verbatim>\<open>values[1:4]\<close> and \<^verbatim>\<open>values[4:7]\<close> never do. The index \<^verbatim>\<open>i\<close> that the
  source enumerates is never used.
\<close>

fun read_leaf_lines ::
  "text_file \<Rightarrow> real list \<times> real list list \<times> real list list \<Rightarrow>
   error + real list \<times> real list list \<times> real list list" where
  "read_leaf_lines [] acc = Inr acc"
| "read_leaf_lines (line # rest) (radii, positions, orientations) =
     (case floats line of
        Inl e \<Rightarrow> Inl e
      | Inr values \<Rightarrow>
          (case values of
             [] \<Rightarrow> Inl (IndexError ''list index out of range'')
           | v0 # _ \<Rightarrow>
               read_leaf_lines rest
                 (radii @ [v0], positions @ [take 3 (drop 1 values)],
                  orientations @ [take 3 (drop 4 values)])))"

text \<open>
  The error for \<^verbatim>\<open>filename=None\<close> in both loaders.
\<close>

definition filename_required :: error where
  "filename_required = ValueError ''parameter filename is required''"

text \<open>
  \<^verbatim>\<open>LeafCloud.from_file\<close>: the three lists become arrays by \<^verbatim>\<open>np.array\<close> (the numbers
  read from a file are finite floats) and go to the constructor, whose validators run.
\<close>

definition LeafCloud_from_file ::
  "filesystem \<Rightarrow> string option \<Rightarrow> 's \<Rightarrow> 's \<Rightarrow> string \<Rightarrow> error + 's leaf_cloud" where
  "LeafCloud_from_file fs filename transmittance reflectance ident =
     (case filename of
        None \<Rightarrow> Inl filename_required
      | Some path \<Rightarrow>
          (case fs path of
             None \<Rightarrow> Inl FileNotFoundError
           | Some definition_file \<Rightarrow>
               (case read_leaf_lines definition_file ([], [], []) of
                  Inl e \<Rightarrow> Inl e
                | Inr (radii, positions_list, orientations_list) \<Rightarrow>
                    (case np_array positions_list of
                       Inl e \<Rightarrow> Inl e
                     | Inr positions \<Rightarrow>
                         (case np_array (map (map Finite) orientations_list) of
                            Inl e \<Rightarrow> Inl e
                          | Inr orientations \<Rightarrow>
                              LeafCloud ident positions orientations radii
                                reflectance transmittance)))))"

text \<open>
  The loop of \<^verbatim>\<open>InstancedCanopyElement.from_file\<close> over \<^verbatim>\<open>enumerate(f)\<close>: a conversion
  failure and a wrong number of coordinates both raise a \<^verbatim>\<open>ValueError\<close> naming line
  \<^verbatim>\<open>i_line + 1\<close>.
\<close>

fun read_instance_lines ::
  "nat \<Rightarrow> text_file \<Rightarrow> real list list \<Rightarrow> error + real list list" where
  "read_instance_lines i_line [] positions = Inr positions"
| "read_instance_lines i_line (line # rest) positions =
     (case floats line of
        Inl e \<Rightarrow> Inl (ValueErrorAtLine (i_line + 1))
      | Inr coords \<Rightarrow>
          if length coords \<noteq> 3 then Inl (ValueErrorAtLine (i_line + 1))
          else read_instance_lines (i_line + 1) rest (positions @ [coords]))"

text \<open>
  \<^verbatim>\<open>InstancedCanopyElement.from_file\<close>, for a canopy element that is given: the list of
  positions becomes an array by \<^verbatim>\<open>np.array\<close> (of shape \<open>(0,)\<close> for a file without lines) and
  goes to the constructor.
\<close>

definition InstancedCanopyElement_from_file ::
  "filesystem \<Rightarrow> string option \<Rightarrow> 'e \<Rightarrow> error + 'e instanced_canopy_element" where
  "InstancedCanopyElement_from_file fs filename element =
     (case filename of
        None \<Rightarrow> Inl filename_required
      | Some path \<Rightarrow>
          (case fs path of
             None \<Rightarrow> Inl FileNotFoundError
           | Some f \<Rightarrow>
               (case read_instance_lines 0 f [] of
                  Inl e \<Rightarrow> Inl e
                | Inr positions_list \<Rightarrow>
                    (case np_array positions_list of
                       Inl e \<Rightarrow> Inl e
                     | Inr positions \<Rightarrow> InstancedCanopyElement element positions))))"

text \<open>
  A malformed line of a file with \<open>n\<close> numbers per line: a wrong token count or a token
  that is not a number.
\<close>

definition is_numeric :: "token \<Rightarrow> bool" where
  "is_numeric t = (case t of Num r \<Rightarrow> True | Word w \<Rightarrow> False)"

definition malformed :: "nat \<Rightarrow> token list \<Rightarrow> bool" where
  "malformed n line = (length line \<noteq> n \<or> \<not> list_all is_numeric line)"

section \<open>Leaf cloud generators\<close>

text \<open>
  \<^verbatim>\<open>LeafCloudParams\<close> and its subclasses for the sphere, the cylinder and the cone. The
  properties of these classes return the fields as they are, so their \<^verbatim>\<open>update\<close> never
  raises. \<^verbatim>\<open>n_leaves\<close> and \<^verbatim>\<open>leaf_radius\<close> default to \<^verbatim>\<open>None\<close>; the extents are
  quantities with a default.
\<close>

record 's leaf_cloud_params =
  params_id :: string
  params_leaf_reflectance :: 's
  params_leaf_transmittance :: 's
  params_mu :: real
  params_nu :: real
  params_n_leaves :: "int option"
  params_leaf_radius :: "real option"

record 's sphere_params = "'s leaf_cloud_params" +
  sphere_radius :: real

record 's cylinder_params = "'s leaf_cloud_params" +
  cylinder_radius :: real
  cylinder_l_vertical :: real

record 's conical_params = "'s leaf_cloud_params" +
  cone_radius :: real
  cone_l_vertical :: real

text \<open>
  The values that reach the samplers as arguments: \<^verbatim>\<open>None\<close>, an integer, or a length
  quantity given by its magnitude in metres.
\<close>

datatype pyval = PyNone | PyInt int | PyQuantity real

definition int_arg :: "int option \<Rightarrow> pyval" where
  "int_arg n = (case n of None \<Rightarrow> PyNone | Some i \<Rightarrow> PyInt i)"

definition length_arg :: "real option \<Rightarrow> pyval" where
  "length_arg x = (case x of None \<Rightarrow> PyNone | Some m \<Rightarrow> PyQuantity m)"

text \<open>
  The decorator \<^verbatim>\<open>@ureg.wraps(ureg.m, (None, ureg.m, ...))\<close> of the samplers, which is
  strict by default: an argument declared with a unit must be a quantity, and the
  function body receives its magnitude; an argument declared \<^verbatim>\<open>None\<close> is passed as it is.
  The first argument of \<^verbatim>\<open>np.empty((n_leaves, 3))\<close> must be a non-negative integer.
\<close>

definition strict_wraps_error :: error where
  "strict_wraps_error =
     ValueError ''A wrapped function using strict=True requires quantity or a string for all arguments with not None units''"

definition quantity_arg :: "pyval \<Rightarrow> error + real" where
  "quantity_arg v = (case v of PyQuantity m \<Rightarrow> Inr m | _ \<Rightarrow> Inl strict_wraps_error)"

definition count_arg :: "pyval \<Rightarrow> error + nat" where
  "count_arg v =
     (case v of
        PyInt n \<Rightarrow> if n < 0 then Inl (ValueError ''negative dimensions are not allowed'')
                   else Inr (nat n)
      | _ \<Rightarrow> Inl (TypeError ''object cannot be interpreted as an integer''))"

text \<open>
  \<^verbatim>\<open>_leaf_cloud_positions_sphere(n_leaves, radius, rng)\<close>.
\<close>

fun sphere_loop :: "rng \<Rightarrow> real \<Rightarrow> nat \<Rightarrow> nat \<Rightarrow> vec3 list \<times> nat \<Rightarrow> vec3 list \<times> nat" where
  "sphere_loop u radius 0 i s = s"
| "sphere_loop u radius (Suc m) i (positions, k) =
     (let (rand, k') = random3 u k
      in case rand of (r0, r1, r2) \<Rightarrow>
        (let theta = r0 * pi;
             phi = r1 * 2 * pi;
             r = r2 * radius
         in sphere_loop u radius m (Suc i)
              (positions[i := (r * sin theta * cos phi, r * sin theta * sin phi, r * cos theta)],
               k')))"

definition leaf_cloud_positions_sphere ::
  "pyval \<Rightarrow> pyval \<Rightarrow> rng \<Rightarrow> nat \<Rightarrow> error + vec3 list \<times> nat" where
  "leaf_cloud_positions_sphere n_leaves radius u k =
     (case quantity_arg radius of
        Inl e \<Rightarrow> Inl e
      | Inr radius_m \<Rightarrow>
          (case count_arg n_leaves of
             Inl e \<Rightarrow> Inl e
           | Inr n \<Rightarrow> Inr (sphere_loop u radius_m n 0 (np_empty n, k))))"

text \<open>
  \<^verbatim>\<open>_leaf_cloud_positions_cylinder(n_leaves, radius, l_vertical, rng)\<close>.
\<close>

fun cylinder_loop ::
  "rng \<Rightarrow> real \<Rightarrow> real \<Rightarrow> nat \<Rightarrow> nat \<Rightarrow> vec3 list \<times> nat \<Rightarrow> vec3 list \<times> nat" where
  "cylinder_loop u radius l_vertical 0 i s = s"
| "cylinder_loop u radius l_vertical (Suc m) i (positions, k) =
     (let (rand, k') = random3 u k
      in case rand of (r0, r1, r2) \<Rightarrow>
        (let phi = r0 * 2 * pi;
             r = r1 * radius;
             z = r2 * l_vertical
         in cylinder_loop u radius l_vertical m (Suc i)
              (positions[i := (r * cos phi, r * sin phi, z)], k')))"

definition leaf_cloud_positions_cylinder ::
  "pyval \<Rightarrow> pyval \<Rightarrow> pyval \<Rightarrow> rng \<Rightarrow> nat \<Rightarrow> error + vec3 list \<times> nat" where
  "leaf_cloud_positions_cylinder n_leaves radius l_vertical u k =
     (case quantity_arg radius of
        Inl e \<Rightarrow> Inl e
      | Inr radius_m \<Rightarrow>
          (case quantity_arg l_vertical of
             Inl e \<Rightarrow> Inl e
           | Inr l_vertical_m \<Rightarrow>
               (case count_arg n_leaves of
                  Inl e \<Rightarrow> Inl e
                | Inr n \<Rightarrow> Inr (cylinder_loop u radius_m l_vertical_m n 0 (np_empty n, k)))))"

text \<open>
  \<^verbatim>\<open>_leaf_cloud_positions_cone(n_leaves, radius, l_vertical, rng)\<close>; the cube root of a
  draw in \<open>[0, 1)\<close> is \<open>powr (1 / 3)\<close>.
\<close>

fun cone_loop ::
  "rng \<Rightarrow> real \<Rightarrow> real \<Rightarrow> nat \<Rightarrow> nat \<Rightarrow> vec3 list \<times> nat \<Rightarrow> error + vec3 list \<times> nat" where
  "cone_loop u radius l_vertical 0 i s = Inr s"
| "cone_loop u radius l_vertical (Suc m) i (positions, k) =
     (let (rand, k') = random3 u k
      in case rand of (r0, r1, r2) \<Rightarrow>
        if l_vertical = 0 then Inl ZeroDivisionError
        else
          (let h = l_vertical * (r0 powr (1 / 3));
               r = radius / l_vertical * h * sqrt r1;
               phi = r2 * 2 * pi
           in cone_loop u radius l_vertical m (Suc i)
                (positions[i := (r * cos phi, r * sin phi, l_vertical - h)], k')))"

definition leaf_cloud_positions_cone ::
  "pyval \<Rightarrow> pyval \<Rightarrow> pyval \<Rightarrow> rng \<Rightarrow> nat \<Rightarrow> error + vec3 list \<times> nat" where
  "leaf_cloud_positions_cone n_leaves radius l_vertical u k =
     (case quantity_arg radius of
        Inl e \<Rightarrow> Inl e
      | Inr radius_m \<Rightarrow>
          (case quantity_arg l_vertical of
             Inl e \<Rightarrow> Inl e
           | Inr l_vertical_m \<Rightarrow>
               (case count_arg n_leaves of
                  Inl e \<Rightarrow> Inl e
                | Inr n \<Rightarrow> cone_loop u radius_m l_vertical_m n 0 (np_empty n, k))))"

text \<open>
  \<^verbatim>\<open>_leaf_cloud_radii(n_leaves, leaf_radius)\<close>: \<^verbatim>\<open>np.full((n_leaves,), leaf_radius)\<close>.
\<close>

definition leaf_cloud_radii :: "pyval \<Rightarrow> pyval \<Rightarrow> error + real list" where
  "leaf_cloud_radii n_leaves leaf_radius =
     (case quantity_arg leaf_radius of
        Inl e \<Rightarrow> Inl e
      | Inr r \<Rightarrow> (case count_arg n_leaves of Inl e \<Rightarrow> Inl e | Inr n \<Rightarrow> Inr (replicate n r)))"

text \<open>
  \<^verbatim>\<open>_leaf_cloud_orientations\<close> called with \<^verbatim>\<open>params.n_leaves\<close>, which may be \<^verbatim>\<open>None\<close>.
\<close>

definition orientations_arg ::
  "pyval \<Rightarrow> real \<Rightarrow> real \<Rightarrow> rng \<Rightarrow> nat \<Rightarrow> (error + nrow list \<times> nat) option" where
  "orientations_arg n_leaves mu nu u k =
     (case n_leaves of
        PyInt n \<Rightarrow> leaf_cloud_orientations n mu nu u k
      | _ \<Rightarrow> Some (Inl (TypeError ''object cannot be interpreted as an integer'')))"

text \<open>
  The part that the generators share word for word: the orientations, the radii and the
  call of the constructor, which receives the positions and the orientations as the
  \<open>(n, 3)\<close> arrays that the samplers allocated and filled.
\<close>

definition leaf_cloud_tail ::
  "('s, 'z) leaf_cloud_params_scheme \<Rightarrow> rng \<Rightarrow> vec3 list \<Rightarrow> nat \<Rightarrow> (error + 's leaf_cloud) option" where
  "leaf_cloud_tail params u positions k =
     (case orientations_arg (int_arg (params_n_leaves params)) (params_mu params) (params_nu params) u k of
        None \<Rightarrow> None
      | Some (Inl e) \<Rightarrow> Some (Inl e)
      | Some (Inr (orientations, k')) \<Rightarrow>
          (case leaf_cloud_radii (int_arg (params_n_leaves params))
                  (length_arg (params_leaf_radius params)) of
             Inl e \<Rightarrow> Some (Inl e)
           | Inr radii \<Rightarrow>
               Some (LeafCloud (params_id params) (array_of_triples positions)
                       (array_of_triples orientations) radii
                       (params_leaf_reflectance params) (params_leaf_transmittance params))))"

text \<open>
  \<^verbatim>\<open>LeafCloud.sphere\<close>, \<^verbatim>\<open>LeafCloud.cylinder\<close> and \<^verbatim>\<open>LeafCloud.cone\<close>. The generator seeded
  with \<^verbatim>\<open>seed\<close> is the stream \<open>u\<close>. The sphere generator calls its sampler as
  \<^verbatim>\<open>_leaf_cloud_positions_sphere(params.radius, params.n_leaves, rng)\<close>; the two others pass
  \<^verbatim>\<open>params.n_leaves\<close> first.
\<close>

definition LeafCloud_sphere :: "rng \<Rightarrow> 's sphere_params \<Rightarrow> (error + 's leaf_cloud) option" where
  "LeafCloud_sphere u params =
     (case leaf_cloud_positions_sphere (PyQuantity (sphere_radius params))
             (int_arg (params_n_leaves params)) u 0 of
        Inl e \<Rightarrow> Some (Inl e)
      | Inr (positions, k) \<Rightarrow> leaf_cloud_tail params u positions k)"

definition LeafCloud_cylinder :: "rng \<Rightarrow> 's cylinder_params \<Rightarrow> (error + 's leaf_cloud) option" where
  "LeafCloud_cylinder u params =
     (case leaf_cloud_positions_cylinder (int_arg (params_n_leaves params))
             (PyQuantity (cylinder_radius params)) (PyQuantity (cylinder_l_vertical params)) u 0 of
        Inl e \<Rightarrow> Some (Inl e)
      | Inr (positions, k) \<Rightarrow> leaf_cloud_tail params u positions k)"

definition LeafCloud_cone :: "rng \<Rightarrow> 's conical_params \<Rightarrow> (error + 's leaf_cloud) option" where
  "LeafCloud_cone u params =
     (case leaf_cloud_positions_cone (int_arg (params_n_leaves params))
             (PyQuantity (cone_radius params)) (PyQuantity (cone_l_vertical params)) u 0 of
        Inl e \<Rightarrow> Some (Inl e)
      | Inr (positions, k) \<Rightarrow> leaf_cloud_tail params u positions k)"

section \<open>Properties of the collision-avoidance placement\<close>

lemma overlaps_nth:
  "overlaps a b \<longleftrightarrow>
     (\<forall>n < min (length a) (length b). fst (a ! n) < snd (b ! n) \<and> fst (b ! n) < snd (a ! n))"
  by (simp add: overlaps_def list_all_length case_prod_beta)

lemma overlaps_sym: "overlaps a b = overlaps b a"
  by (auto simp: overlaps_nth)

lemma does_overlap_nth:
  "does_overlap tree b \<longleftrightarrow> (\<exists>a < length tree. overlaps (tree ! a) b)"
  by (auto simp: does_overlap_def list_ex_length)

lemma attempt_loop_None_iff:
  "attempt_loop u lh lv r i m (ps, tree, k) = None \<longleftrightarrow>
     (\<forall>j < m. i \<noteq> 0 \<and> does_overlap tree (candidate_box u lh lv r k j))"
proof (induction m arbitrary: k)
  case 0
  then show ?case by simp
next
  case (Suc m)
  have shift: "\<And>j. candidate_box u lh lv r (k + 3) j = candidate_box u lh lv r k (Suc j)"
    by (simp add: candidate_box_def add.assoc)
  show ?case
  proof (cases "i \<noteq> 0 \<and> does_overlap tree (candidate_box u lh lv r k 0)")
    case True
    then have "attempt_loop u lh lv r i (Suc m) (ps, tree, k)
                 = attempt_loop u lh lv r i m (ps, tree, k + 3)"
      by (simp add: random3_def candidate_box_def)
    also have "\<dots> = None \<longleftrightarrow> (\<forall>j < m. i \<noteq> 0 \<and> does_overlap tree (candidate_box u lh lv r k (Suc j)))"
      using Suc.IH [of "k + 3"] by (simp add: shift)
    finally show ?thesis using True
      by (auto simp: less_Suc_eq_0_disj)
  next
    case False
    then have "attempt_loop u lh lv r i (Suc m) (ps, tree, k) \<noteq> None"
      by (auto simp: random3_def candidate_box_def Let_def)
    with False show ?thesis by auto
  qed
qed

lemma place_loop_add:
  "place_loop u lh lv r na (a + b) i s =
     (case place_loop u lh lv r na a i s of
        Inl e \<Rightarrow> Inl e
      | Inr s' \<Rightarrow> place_loop u lh lv r na b (i + a) s')"
  by (induction a arbitrary: i s) (auto split: option.splits sum.splits)

lemma placer_inv_accept:
  assumes inv: "placer_inv r i (ps, tree, k)"
    and i: "i < length ps"
    and free: "i = 0 \<or> \<not> does_overlap tree (leaf_aabb r c)"
  shows "placer_inv r (Suc i) (ps[i := c], tree_add tree (leaf_aabb r c), k')"
proof -
  from inv have len: "length tree = i"
    and boxes: "\<And>a. a < i \<Longrightarrow> tree ! a = leaf_aabb r (ps ! a)"
    and apart: "\<And>a b. a < i \<Longrightarrow> b < i \<Longrightarrow> a \<noteq> b \<Longrightarrow> \<not> overlaps (tree ! a) (tree ! b)"
    by (auto simp: placer_inv_def)
  let ?t = "tree_add tree (leaf_aabb r c)"
  have new: "?t ! i = leaf_aabb r c" and old: "\<And>a. a < i \<Longrightarrow> ?t ! a = tree ! a"
    using len by (auto simp: tree_add_def nth_append)
  have fresh: "\<And>a. a < i \<Longrightarrow> \<not> overlaps (tree ! a) (leaf_aabb r c)"
    using free len by (auto simp: does_overlap_nth)
  have 1: "length ?t = Suc i" using len by (simp add: tree_add_def)
  have 2: "?t ! a = leaf_aabb r (ps[i := c] ! a)" if "a < Suc i" for a
  proof (cases "a = i")
    case True
    then show ?thesis using new i by simp
  next
    case False
    with that have "a < i" by simp
    then show ?thesis using old boxes by simp
  qed
  have 3: "\<not> overlaps (?t ! a) (?t ! b)" if ab: "a < Suc i" "b < Suc i" "a \<noteq> b" for a b
  proof -
    consider "a < i" "b < i" | "a = i" "b < i" | "a < i" "b = i"
      using ab by linarith
    then show ?thesis
    proof cases
      case 1
      then show ?thesis using old apart ab by simp
    next
      case 2
      then show ?thesis using old new fresh overlaps_sym by simp
    next
      case 3
      then show ?thesis using old new fresh by simp
    qed
  qed
  show ?thesis
    unfolding placer_inv_def using 1 2 3 by simp
qed

lemma attempt_loop_inv:
  "attempt_loop u lh lv r i m (ps, tree, k) = Some s' \<Longrightarrow>
   placer_inv r i (ps, tree, k) \<Longrightarrow> i < length ps \<Longrightarrow>
   placer_inv r (Suc i) s' \<and> length (fst s') = length ps"
proof (induction m arbitrary: k)
  case 0
  then show ?case by simp
next
  case (Suc m)
  let ?c = "pos_candidate lh lv (fst (random3 u k))"
  have inv': "placer_inv r i (ps, tree, k + 3)"
    using Suc.prems(2) by (auto simp: placer_inv_def)
  show ?case
  proof (cases "i = 0 \<or> \<not> does_overlap tree (leaf_aabb r ?c)")
    case True
    then have "s' = (ps[i := ?c], tree_add tree (leaf_aabb r ?c), k + 3)"
      using Suc.prems(1) by (auto simp: random3_def Let_def split: if_splits)
    then show ?thesis
      using placer_inv_accept [OF Suc.prems(2) Suc.prems(3) True] by simp
  next
    case False
    then have "attempt_loop u lh lv r i m (ps, tree, k + 3) = Some s'"
      using Suc.prems(1) by (auto simp: random3_def Let_def)
    then show ?thesis
      using Suc.IH inv' Suc.prems(3) by blast
  qed
qed

lemma place_loop_inv:
  "place_loop u lh lv r na m i s = Inr s' \<Longrightarrow>
   placer_inv r i s \<Longrightarrow> i + m \<le> length (fst s) \<Longrightarrow>
   placer_inv r (i + m) s' \<and> length (fst s') = length (fst s)"
proof (induction m arbitrary: i s)
  case 0
  then show ?case by simp
next
  case (Suc m)
  obtain ps tree k where s: "s = (ps, tree, k)" by (cases s) auto
  from Suc.prems(1) obtain s1 where
    a: "attempt_loop u lh lv r i na (ps, tree, k) = Some s1"
    and p: "place_loop u lh lv r na m (Suc i) s1 = Inr s'"
    by (auto simp: s split: option.splits)
  have "i < length ps" using Suc.prems(3) s by simp
  with attempt_loop_inv [OF a] Suc.prems(2) s
  have s1: "placer_inv r (Suc i) s1" "length (fst s1) = length ps" by auto
  have "Suc i + m \<le> length (fst s1)" using s1 Suc.prems(3) s by simp
  from Suc.IH [OF p s1(1) this] show ?case using s1 s by simp
qed

text \<open>
  The boxes the placement builds for the positions it returns do not overlap, in the
  sense of the test it uses.
\<close>

lemma placement_boxes_not_overlapping:
  assumes "leaf_cloud_positions_cuboid_avoid_overlap n_leaves lh lv r n_attempts u k
             = Inr (positions, k')"
  shows "int (length positions) = n_leaves \<and>
         (\<forall>i < length positions. \<forall>j < length positions. i \<noteq> j \<longrightarrow>
            \<not> overlaps (leaf_aabb r (positions ! i)) (leaf_aabb r (positions ! j)))"
proof -
  let ?n = "nat n_leaves"
  from assms have nn: "0 \<le> n_leaves"
    by (auto simp: leaf_cloud_positions_cuboid_avoid_overlap_def split: if_splits)
  from assms obtain tree where
    run: "place_loop u lh lv r (nat n_attempts) ?n 0 (np_empty ?n, [], k)
            = Inr (positions, tree, k')"
    by (auto simp: leaf_cloud_positions_cuboid_avoid_overlap_def
             split: if_splits sum.splits)
  have init: "placer_inv r 0 (np_empty ?n, [], k)"
    by (simp add: placer_inv_def)
  have "0 + ?n \<le> length (fst (np_empty ?n, ([]::aabb list), k))"
    by (simp add: np_empty_def)
  from place_loop_inv [OF run init this]
  have inv: "placer_inv r ?n (positions, tree, k')" and len: "length positions = ?n"
    by (simp_all add: np_empty_def)
  from inv have boxes: "\<And>a. a < ?n \<Longrightarrow> tree ! a = leaf_aabb r (positions ! a)"
    and apart: "\<And>a b. a < ?n \<Longrightarrow> b < ?n \<Longrightarrow> a \<noteq> b \<Longrightarrow> \<not> overlaps (tree ! a) (tree ! b)"
    by (auto simp: placer_inv_def)
  show ?thesis
    using len nn boxes apart by auto
qed

text \<open>
  For a positive leaf radius the overlap test on two leaf boxes holds exactly when the
  interiors of the boxes have a point in common.
\<close>

lemma open_intervals_meet:
  fixes x x' r :: real
  assumes "0 < r"
  shows "(\<exists>t. x - r < t \<and> t < x + r \<and> x' - r < t \<and> t < x' + r) \<longleftrightarrow>
         (x - r < x' + r \<and> x' - r < x + r)"
proof
  assume "\<exists>t. x - r < t \<and> t < x + r \<and> x' - r < t \<and> t < x' + r"
  then show "x - r < x' + r \<and> x' - r < x + r" by auto
next
  assume h: "x - r < x' + r \<and> x' - r < x + r"
  let ?t = "(x + x') / 2"
  have "x - r < ?t \<and> ?t < x + r \<and> x' - r < ?t \<and> ?t < x' + r"
    using h assms by (simp add: field_simps)
  then show "\<exists>t. x - r < t \<and> t < x + r \<and> x' - r < t \<and> t < x' + r" by blast
qed

lemma overlaps_leaf_aabb:
  "overlaps (leaf_aabb r (x, y, z)) (leaf_aabb r (x', y', z')) \<longleftrightarrow>
     (x - r < x' + r \<and> x' - r < x + r) \<and>
     (y - r < y' + r \<and> y' - r < y + r) \<and>
     (z - r < z' + r \<and> z' - r < z + r)"
  by (simp add: overlaps_def leaf_aabb_def)

lemma overlaps_iff_interiors_meet:
  assumes "0 < r"
  shows "overlaps (leaf_aabb r p) (leaf_aabb r q) \<longleftrightarrow>
         interior_box r p \<inter> interior_box r q \<noteq> {}"
proof -
  obtain x y z where p: "p = (x, y, z)" by (cases p)
  obtain x' y' z' where q: "q = (x', y', z')" by (cases q)
  have "interior_box r p \<inter> interior_box r q \<noteq> {} \<longleftrightarrow>
          (\<exists>a. x - r < a \<and> a < x + r \<and> x' - r < a \<and> a < x' + r) \<and>
          (\<exists>b. y - r < b \<and> b < y + r \<and> y' - r < b \<and> b < y' + r) \<and>
          (\<exists>c. z - r < c \<and> c < z + r \<and> z' - r < c \<and> c < z' + r)"
    unfolding p q interior_box_def by auto
  then show ?thesis
    unfolding p q overlaps_leaf_aabb
    by (simp only: open_intervals_meet [OF assms])
qed

text \<open>
  Whatever the radius, two leaf boxes whose interiors have a point in common overlap.
\<close>

lemma interiors_meet_overlaps:
  assumes "interior_box r p \<inter> interior_box r q \<noteq> {}"
  shows "overlaps (leaf_aabb r p) (leaf_aabb r q)"
proof -
  obtain x y z where p: "p = (x, y, z)" by (cases p)
  obtain x' y' z' where q: "q = (x', y', z')" by (cases q)
  from assms obtain a b c where
    "(a, b, c) \<in> interior_box r (x, y, z)" "(a, b, c) \<in> interior_box r (x', y', z')"
    unfolding p q by auto
  then show ?thesis
    unfolding p q overlaps_leaf_aabb by (simp add: interior_box_def)
qed

text \<open>
  Claim C4, as amended. Whenever collision-avoidance placement succeeds, for a leaf radius
  that is not negative, it returns one position per requested leaf, and for every pair of
  distinct leaves the interiors of the boxes obtained by inflating each position by the
  leaf radius along every axis are disjoint.
\<close>

theorem avoid_overlap_interiors_disjoint:
  assumes "0 \<le> r"
    and "leaf_cloud_positions_cuboid_avoid_overlap n_leaves lh lv r n_attempts u k
             = Inr (positions, k')"
  shows "int (length positions) = n_leaves \<and>
         (\<forall>i < length positions. \<forall>j < length positions. i \<noteq> j \<longrightarrow>
            interior_box r (positions ! i) \<inter> interior_box r (positions ! j) = {})"
proof -
  from placement_boxes_not_overlapping [OF assms(2)]
  have len: "int (length positions) = n_leaves"
    and apart: "\<And>i j. i < length positions \<Longrightarrow> j < length positions \<Longrightarrow> i \<noteq> j \<Longrightarrow>
            \<not> overlaps (leaf_aabb r (positions ! i)) (leaf_aabb r (positions ! j))"
    by blast+
  have "interior_box r (positions ! i) \<inter> interior_box r (positions ! j) = {}"
    if "i < length positions" "j < length positions" "i \<noteq> j" for i j
    using apart [OF that] interiors_meet_overlaps [of r "positions ! i" "positions ! j"]
    by blast
  with len show ?thesis by blast
qed

text \<open>
  A run in which the first candidate of the second leaf is rejected and the second one is
  accepted.
\<close>

theorem avoid_overlap_interiors_disjoint_witness:
  "leaf_cloud_positions_cuboid_avoid_overlap 2 10 10 1 2
           (\<lambda>j. if j < 6 then 0 else 3 / 4) 0
         = Inr ([(- 5, - 5, 0), (5 / 2, 5 / 2, 15 / 2)], 9) \<and>
   interior_box 1 (- 5, - 5, 0) \<inter> interior_box 1 (5 / 2, 5 / 2, 15 / 2) = {}"
proof -
  let ?ps = "[(- 5, - 5, 0), (5 / 2, 5 / 2, 15 / 2)] :: vec3 list"
  have run: "leaf_cloud_positions_cuboid_avoid_overlap 2 10 10 1 2
           (\<lambda>j. if j < 6 then 0 else 3 / 4) 0 = Inr (?ps, 9)"
    by (simp add: leaf_cloud_positions_cuboid_avoid_overlap_def np_empty_def numeral_2_eq_2
        random3_def pos_candidate_def leaf_aabb_def does_overlap_def overlaps_def
        tree_add_def Let_def)
  have r: "(0::real) \<le> 1" by simp
  have sep: "\<forall>i < length ?ps. \<forall>j < length ?ps. i \<noteq> j \<longrightarrow>
            interior_box 1 (?ps ! i) \<inter> interior_box 1 (?ps ! j) = {}"
    using avoid_overlap_interiors_disjoint [OF r run] by (rule conjunct2)
  have "interior_box 1 (?ps ! 0) \<inter> interior_box 1 (?ps ! 1) = {}"
    using sep [rule_format, of 0 1] by simp
  with run show ?thesis by simp
qed

text \<open>
  Claim C4 as stated, that the inflated boxes do not intersect, fails: the placement
  rejects a candidate only when the boxes overlap strictly on every axis, so two leaves
  whose boxes touch along a face are both placed. With the draws \<open>0, 0, 0\<close> for the first
  leaf and \<open>1/2, 0, 0\<close> for the second, in a cuboid of extents 4 and 4 with leaves of
  radius 1, the two boxes share the point \<open>(-1, -2, 0)\<close>.
\<close>

theorem avoid_overlap_boxes_touch:
  "leaf_cloud_positions_cuboid_avoid_overlap 2 4 4 1 1 (draws_of [0, 0, 0, 1 / 2, 0, 0]) 0
         = Inr ([(- 2, - 2, 0), (0, - 2, 0)], 6) \<and>
   (- 1, - 2, 0) \<in> closed_box 1 (- 2, - 2, 0) \<inter> closed_box 1 (0, - 2, 0)"
  by (simp add: leaf_cloud_positions_cuboid_avoid_overlap_def np_empty_def numeral_2_eq_2
        random3_def pos_candidate_def leaf_aabb_def does_overlap_def overlaps_def
        tree_add_def Let_def closed_box_def draws_of_def)

text \<open>
  Claim C5. If, for the leaf \<open>i\<close> reached after \<open>i\<close> successful placements, every one of
  the \<open>n_attempts\<close> candidate draws is rejected because its box overlaps an already placed
  one, the whole placement returns the "canopy too dense" error: an error value and no
  position array, with no further draw for that or any other leaf.
\<close>

theorem exhausted_attempts_raise:
  assumes "0 \<le> n_leaves" and "i < nat n_leaves"
    and "place_loop u lh lv r (nat n_attempts) i 0 (np_empty (nat n_leaves), [], k)
           = Inr (positions, tree, k1)"
    and "\<forall>j < nat n_attempts.
           i \<noteq> 0 \<and> does_overlap tree (candidate_box u lh lv r k1 j)"
  shows "leaf_cloud_positions_cuboid_avoid_overlap n_leaves lh lv r n_attempts u k
           = Inl too_dense"
proof -
  define b where "b = nat n_leaves - Suc i"
  have n: "nat n_leaves = i + Suc b"
    using assms(2) by (simp add: b_def)
  have stuck: "attempt_loop u lh lv r i (nat n_attempts) (positions, tree, k1) = None"
    using assms(4) by (simp add: attempt_loop_None_iff)
  let ?init = "(np_empty (nat n_leaves), ([]::aabb list), k)"
  have "place_loop u lh lv r (nat n_attempts) (i + Suc b) 0 ?init =
          (case place_loop u lh lv r (nat n_attempts) i 0 ?init of
             Inl e \<Rightarrow> Inl e
           | Inr s' \<Rightarrow> place_loop u lh lv r (nat n_attempts) (Suc b) (0 + i) s')"
    by (rule place_loop_add)
  also have "\<dots> = Inl too_dense"
    by (simp add: assms(3) stuck)
  finally have "place_loop u lh lv r (nat n_attempts) (nat n_leaves) 0 ?init = Inl too_dense"
    by (simp only: n)
  then show ?thesis
    using assms(1) by (simp add: leaf_cloud_positions_cuboid_avoid_overlap_def)
qed

theorem exhausted_attempts_raise_witness:
  "leaf_cloud_positions_cuboid_avoid_overlap 2 1 1 1 2 (\<lambda>_. 1 / 2) 0 = Inl too_dense"
proof -
  have a: "(0::int) \<le> 2" and b: "(1::nat) < nat 2" by simp_all
  have c: "place_loop (\<lambda>_. 1 / 2) 1 1 1 (nat 2) 1 0 (np_empty (nat 2), [], 0)
             = Inr ([(0, 0, 1 / 2), (0, 0, 0)], [leaf_aabb 1 (0, 0, 1 / 2)], 3)"
    by (simp add: np_empty_def numeral_2_eq_2 random3_def pos_candidate_def tree_add_def
          Let_def)
  have d: "\<forall>j < nat 2. (1::nat) \<noteq> 0 \<and>
             does_overlap [leaf_aabb 1 (0, 0, 1 / 2)] (candidate_box (\<lambda>_. 1 / 2) 1 1 1 3 j)"
    by (simp add: candidate_box_def random3_def pos_candidate_def leaf_aabb_def
          does_overlap_def overlaps_def)
  from exhausted_attempts_raise [OF a b c d] show ?thesis .
qed




section \<open>Properties of the orientation sampler\<close>









section \<open>Properties of padding\<close>












section \<open>Properties of translation\<close>

text \<open>
  Replacing the positions of a leaf cloud by an \<open>(N, 3)\<close> array with as many rows passes
  all validators again.
\<close>

lemma evolve_same_length:
  assumes "constructed lc" and "leaf_positions lc = Array2 3 rows"
    and "length rows' = length rows"
  shows "evolve_leaf_positions lc (Array2 3 rows') = Inr (lc\<lparr>leaf_positions := Array2 3 rows'\<rparr>)"
proof -
  from assms(1,2) have
    len: "positions_orientations_radii_validator (Array2 3 rows) (leaf_orientations lc)
            (leaf_radii lc) = Inr ()"
    and ori: "positions_orientations_validator (leaf_orientations lc) = Inr ()"
    and rad: "list_all is_positive (leaf_radii lc)"
    by (auto simp: constructed_def LeafCloud_def split: sum.splits if_splits)
  have pos: "positions_orientations_validator (Array2 3 rows' :: real ndarray) = Inr ()"
    by (simp add: positions_orientations_validator_def np_len_def is_n3_def)
  have len': "positions_orientations_radii_validator (Array2 3 rows') (leaf_orientations lc)
            (leaf_radii lc) = Inr ()"
    using len assms(3) by (simp add: positions_orientations_radii_validator_def np_len_def)
  show ?thesis
    by (simp add: evolve_leaf_positions_def LeafCloud_def pos len' ori rad)
qed

text \<open>
  Claim C8, as amended. For every leaf cloud whose positions form an array of shape
  \<open>(N, 3)\<close> and every 3-vector \<open>(a, b, c)\<close>, \<open>translated\<close> returns a new leaf cloud whose
  positions are the original ones plus the vector, row by row, all other fields
  (orientations, radii, optical properties, identifier) being those of the original,
  which is a value and is not changed; for an \<open>(N, 3)\<close> argument the addition is
  entry by entry; an \<open>(M, 3)\<close> argument with \<open>M \<noteq> N\<close> raises the shape error.
\<close>

theorem translated_adds_vector:
  fixes lc :: "'s leaf_cloud"
  assumes "constructed lc" and "leaf_positions lc = Array2 3 rows"
  shows "translated lc (Array1 [a, b, c])
           = Inr (lc\<lparr>leaf_positions := Array2 3 (map (\<lambda>row. map2 (+) row [a, b, c]) rows)\<rparr>) \<and>
         (length rows' = length rows \<longrightarrow>
            translated lc (Array2 3 rows')
              = Inr (lc\<lparr>leaf_positions := Array2 3 (map2 (map2 (+)) rows rows')\<rparr>)) \<and>
         (length rows' \<noteq> length rows \<longrightarrow>
            translated lc (Array2 3 rows') = Inl shape_mismatch)"
proof (intro conjI impI)
  show "translated lc (Array1 [a, b, c])
           = Inr (lc\<lparr>leaf_positions := Array2 3 (map (\<lambda>row. map2 (+) row [a, b, c]) rows)\<rparr>)"
    using evolve_same_length [OF assms, of "map (\<lambda>row. map2 (+) row [a, b, c]) rows"]
    by (simp add: translated_def add_broadcast_def add_vector_rows_def assms(2))
next
  assume "length rows' = length rows"
  then show "translated lc (Array2 3 rows')
              = Inr (lc\<lparr>leaf_positions := Array2 3 (map2 (map2 (+)) rows rows')\<rparr>)"
    using evolve_same_length [OF assms, of "map2 (map2 (+)) rows rows'"]
    by (simp add: translated_def shape_def assms(2) rows_of_def)
next
  assume "length rows' \<noteq> length rows"
  then show "translated lc (Array2 3 rows') = Inl shape_mismatch"
    by (simp add: translated_def shape_def assms(2))
qed

theorem translated_adds_vector_witness:
  "translated \<lparr>cloud_id = ''leaf_cloud'', leaf_positions = Array2 3 [[0, 0, 0], [1, 2, 3]],
      leaf_orientations = Array2 3 [[Finite 0, Finite 0, Finite 1], [Finite 0, Finite 0, Finite 1]],
      leaf_radii = [1, 1],
      leaf_reflectance = (1 / 2 :: real), leaf_transmittance = 1 / 2\<rparr> (Array1 [1, 1, 1])
   = Inr \<lparr>cloud_id = ''leaf_cloud'', leaf_positions = Array2 3 [[1, 1, 1], [2, 3, 4]],
      leaf_orientations = Array2 3 [[Finite 0, Finite 0, Finite 1], [Finite 0, Finite 0, Finite 1]],
      leaf_radii = [1, 1],
      leaf_reflectance = 1 / 2, leaf_transmittance = 1 / 2\<rparr> \<and>
    translated \<lparr>cloud_id = ''leaf_cloud'', leaf_positions = Array2 3 [[0, 0, 0], [1, 2, 3]],
      leaf_orientations = Array2 3 [[Finite 0, Finite 0, Finite 1], [Finite 0, Finite 0, Finite 1]],
      leaf_radii = [1, 1],
      leaf_reflectance = (1 / 2 :: real), leaf_transmittance = 1 / 2\<rparr>
      (Array2 3 [[1, 0, 0], [0, 1, 0]])
   = Inr \<lparr>cloud_id = ''leaf_cloud'', leaf_positions = Array2 3 [[1, 0, 0], [1, 3, 3]],
      leaf_orientations = Array2 3 [[Finite 0, Finite 0, Finite 1], [Finite 0, Finite 0, Finite 1]],
      leaf_radii = [1, 1],
      leaf_reflectance = 1 / 2, leaf_transmittance = 1 / 2\<rparr> \<and>
    translated \<lparr>cloud_id = ''leaf_cloud'', leaf_positions = Array2 3 [[0, 0, 0], [1, 2, 3]],
      leaf_orientations = Array2 3 [[Finite 0, Finite 0, Finite 1], [Finite 0, Finite 0, Finite 1]],
      leaf_radii = [1, 1],
      leaf_reflectance = (1 / 2 :: real), leaf_transmittance = 1 / 2\<rparr>
      (Array2 3 [[1, 0, 0]])
   = Inl shape_mismatch"
proof -
  let ?lc = "\<lparr>cloud_id = ''leaf_cloud'', leaf_positions = Array2 3 [[0, 0, 0], [1, 2, 3]],
      leaf_orientations = Array2 3 [[Finite 0, Finite 0, Finite 1], [Finite 0, Finite 0, Finite 1]],
      leaf_radii = [1, 1],
      leaf_reflectance = (1 / 2 :: real), leaf_transmittance = 1 / 2\<rparr>"
  have c: "constructed ?lc"
    by (simp add: constructed_def LeafCloud_def is_positive_def
          positions_orientations_validator_def positions_orientations_radii_validator_def
          np_len_def is_n3_def)
  have p: "leaf_positions ?lc = Array2 3 [[0, 0, 0], [1, 2, 3]]" by simp
  show ?thesis
    using translated_adds_vector [OF c p, of 1 1 1 "[[1, 0, 0], [0, 1, 0]]"]
          translated_adds_vector [OF c p, of 1 1 1 "[[1, 0, 0]]"]
    by simp
qed

text \<open>
  Claim C8 as stated, for every leaf cloud, fails on the default leaf cloud
  \<^verbatim>\<open>LeafCloud()\<close>: its positions are the array made from \<^verbatim>\<open>[]\<close>, of shape \<open>(0,)\<close>, which the
  validators accept, and adding a 3-vector reshaped to \<open>(1, 3)\<close> raises numpy's
  broadcasting error instead of returning a leaf cloud.
\<close>

theorem translated_default_cloud_raises:
  "constructed \<lparr>cloud_id = ''leaf_cloud'', leaf_positions = Array1 [],
      leaf_orientations = Array1 [], leaf_radii = [],
      leaf_reflectance = (1 / 2 :: real), leaf_transmittance = 1 / 2\<rparr> \<and>
   translated \<lparr>cloud_id = ''leaf_cloud'', leaf_positions = Array1 [],
      leaf_orientations = Array1 [], leaf_radii = [],
      leaf_reflectance = (1 / 2 :: real), leaf_transmittance = 1 / 2\<rparr> (Array1 [1, 1, 1])
     = Inl broadcast_error"
  by (simp add: constructed_def LeafCloud_def positions_orientations_validator_def
        positions_orientations_radii_validator_def np_len_def translated_def add_broadcast_def)

section \<open>Properties of the parameter resolution\<close>

text \<open>
  Claim C6. For a cuboid parameter object whose \<open>n_leaves\<close>, \<open>leaf_radius\<close> and
  \<open>l_horizontal\<close> come from a set consistent with a leaf area index \<open>lai0\<close>, that is
  \<open>n_leaves = lai0 (l_horizontal / leaf_radius)\<^sup>2 / pi\<close>, and whose \<open>lai\<close> is unset, the
  property \<open>lai\<close> resolves to \<open>lai0\<close> (exactly, over the real numbers) and caches it.
\<close>

theorem lai_round_trip:
  assumes "raw_n_leaves p = Some n" and "raw_leaf_radius p = Some r"
    and "raw_l_horizontal p = Some l" and "raw_lai p = None"
    and "0 < r" and "0 < l"
    and "of_int n = lai0 * (l / r)\<^sup>2 / pi"
  shows "cuboid_lai (Suc (Suc d)) p = Inr (lai0, p\<lparr>raw_lai := Some lai0\<rparr>)"
proof -
  have "pi * (r / l)\<^sup>2 * of_int n = pi * (r / l)\<^sup>2 * (lai0 * (l / r)\<^sup>2 / pi)"
    by (simp only: assms(7))
  also have "\<dots> = lai0"
    using assms(5,6) by (simp add: power2_eq_square field_simps)
  finally have v: "pi * (r / l)\<^sup>2 * of_int n = lai0" .
  show ?thesis
    using assms(1-4,6) v
    by (simp add: Let_def has_compatible_units_def dimensionless_def length_dim_def)
qed

theorem lai_round_trip_witness:
  "cuboid_lai 2 \<lparr>raw_n_leaves = Some 4, raw_leaf_radius = Some (1 / 2),
       raw_l_horizontal = Some 1, raw_l_vertical = None, raw_lai = None,
       raw_hdo = None, raw_hvr = None\<rparr>
     = Inr (pi, \<lparr>raw_n_leaves = Some 4, raw_leaf_radius = Some (1 / 2),
       raw_l_horizontal = Some 1, raw_l_vertical = None, raw_lai = Some pi,
       raw_hdo = None, raw_hvr = None\<rparr>)"
proof -
  let ?p = "\<lparr>raw_n_leaves = Some 4, raw_leaf_radius = Some (1 / 2),
       raw_l_horizontal = Some 1, raw_l_vertical = None, raw_lai = None,
       raw_hdo = None, raw_hvr = None\<rparr>"
  have c: "of_int 4 = pi * (1 / (1 / 2))\<^sup>2 / pi" by simp
  have "cuboid_lai (Suc (Suc 0)) ?p = Inr (pi, ?p\<lparr>raw_lai := Some pi\<rparr>)"
    by (rule lai_round_trip [where n = 4 and r = "1 / 2" and l = 1]) (simp_all)
  then show ?thesis by (simp add: numeral_2_eq_2)
qed

text \<open>
  The relation \<open>n_leaves = lai (l_horizontal / leaf_radius)\<^sup>2 / pi\<close> is inverted by the
  square root of \<open>pi leaf_radius\<^sup>2 n_leaves / lai\<close>, which is a length; the expression
  without the square root is an area.
\<close>

lemma inverse_needs_sqrt:
  assumes "0 < r" and "0 < a" and "0 < n"
  shows "a * (sqrt (pi * r\<^sup>2 * n / a) / r)\<^sup>2 / pi = n"
    and "has_compatible_units length_dim ((2 * length_dim - dimensionless) div 2) = Inr ()"
    and "has_compatible_units length_dim (2 * length_dim - dimensionless) = Inl UnitsError"
proof -
  have "0 \<le> pi * r\<^sup>2 * n / a" using assms by simp
  then have "(sqrt (pi * r\<^sup>2 * n / a))\<^sup>2 = pi * r\<^sup>2 * n / a" by simp
  then have "(sqrt (pi * r\<^sup>2 * n / a) / r)\<^sup>2 = pi * r\<^sup>2 * n / a / r\<^sup>2"
    by (simp add: power_divide)
  then show "a * (sqrt (pi * r\<^sup>2 * n / a) / r)\<^sup>2 / pi = n"
    using assms by simp
qed (simp_all add: has_compatible_units_def length_dim_def dimensionless_def)

text \<open>
  Whenever \<open>l_horizontal\<close> is unset, reading the property raises: either one of the
  properties it reads does, or the area computed is refused by the length field.
\<close>

lemma l_horizontal_never_resolves:
  assumes "raw_l_horizontal p = None"
  shows "\<exists>e. cuboid_l_horizontal d p = Inl e"
proof (cases d)
  case 0
  then show ?thesis by simp
next
  case (Suc d')
  then show ?thesis
    using assms
    by (auto simp: Let_def has_compatible_units_def dimensionless_def length_dim_def
             split: sum.splits option.splits prod.splits)
qed

text \<open>
  Claim C3. The property \<open>l_horizontal\<close>, when unset, is computed as
  \<open>pi leaf_radius\<^sup>2 n_leaves / lai\<close>, without the square root that the inverse of
  \<open>n_leaves = lai (l_horizontal / leaf_radius)\<^sup>2 / pi\<close> needs. The value is an area, and
  the assignment to the length field \<open>_l_horizontal\<close> raises a units error: for 2 leaves
  of radius 1 and a leaf area index of \<open>pi\<close> reading the property raises instead of
  resolving the extent, and constructing the parameter object, which reads every field,
  fails with the error naming the field \<open>l_horizontal\<close>.
\<close>

theorem l_horizontal_not_inverse:
  "cuboid_l_horizontal 2 \<lparr>raw_n_leaves = Some 2, raw_leaf_radius = Some 1,
       raw_l_horizontal = None, raw_l_vertical = Some 1, raw_lai = Some pi,
       raw_hdo = None, raw_hvr = None\<rparr>
     = Inl UnitsError \<and>
   cuboid_update \<lparr>raw_n_leaves = Some 2, raw_leaf_radius = Some 1,
       raw_l_horizontal = None, raw_l_vertical = Some 1, raw_lai = Some pi,
       raw_hdo = None, raw_hvr = None\<rparr>
     = Inl (FieldError ''l_horizontal'')"
proof -
  let ?p = "\<lparr>raw_n_leaves = Some 2, raw_leaf_radius = Some 1,
       raw_l_horizontal = None, raw_l_vertical = Some 1, raw_lai = Some pi,
       raw_hdo = None, raw_hvr = None\<rparr>"
  have limit: "recursion_limit = Suc (Suc 998)"
    by (simp add: recursion_limit_def)
  have raises: "cuboid_l_horizontal (Suc (Suc d)) ?p = Inl UnitsError" for d
    by (simp add: Let_def has_compatible_units_def dimensionless_def length_dim_def)
  have n: "cuboid_n_leaves (Suc d) ?p = Inr (2, ?p)" for d
    by simp
  have r: "cuboid_leaf_radius (Suc d) ?p = Inr (1, ?p)" for d
    by simp
  have "cuboid_l_horizontal 2 ?p = Inl UnitsError"
    using raises [of 0] by (simp only: numeral_2_eq_2)
  moreover have "cuboid_update ?p = Inl (FieldError ''l_horizontal'')"
    unfolding cuboid_update_def limit by (simp only: n r raises sum.case prod.case)
  ultimately show ?thesis by (rule conjI)
qed

section \<open>Properties of the file loaders\<close>

text \<open>
  The instance-position loader reports the first malformed line by its number.
\<close>

lemma floats_Inr_iff: "(\<exists>vs. floats line = Inr vs) \<longleftrightarrow> list_all is_numeric line"
proof (induction line)
  case Nil
  then show ?case by simp
next
  case (Cons t ts)
  show ?case
  proof (cases t)
    case (Num r)
    then show ?thesis
      using Cons.IH by (cases "floats ts") (auto simp: py_float_def is_numeric_def)
  next
    case (Word w)
    then show ?thesis by (simp add: py_float_def is_numeric_def)
  qed
qed

lemma floats_length: "floats line = Inr vs \<Longrightarrow> length vs = length line"
  by (induction line arbitrary: vs) (auto split: sum.splits)

lemma well_formed_line:
  "\<not> malformed n line \<longleftrightarrow> (\<exists>vs. floats line = Inr vs \<and> length vs = n)"
  using floats_Inr_iff [of line] floats_length [of line] by (auto simp: malformed_def)

lemma read_instance_lines_malformed:
  "\<exists>line \<in> set f. malformed 3 line \<Longrightarrow>
   \<exists>m < length f. malformed 3 (f ! m) \<and> (\<forall>j < m. \<not> malformed 3 (f ! j)) \<and>
      read_instance_lines i f acc = Inl (ValueErrorAtLine (i + m + 1))"
proof (induction f arbitrary: i acc)
  case Nil
  then show ?case by simp
next
  case (Cons line rest)
  show ?case
  proof (cases "malformed 3 line")
    case True
    then have "read_instance_lines i (line # rest) acc = Inl (ValueErrorAtLine (i + 0 + 1))"
      using well_formed_line [of 3 line] by (auto split: sum.splits)
    with True show ?thesis
      by (intro exI [of _ 0]) simp
  next
    case False
    then obtain vs where vs: "floats line = Inr vs" "length vs = 3"
      using well_formed_line [of 3 line] by auto
    from False Cons.prems have "\<exists>l \<in> set rest. malformed 3 l" by auto
    from Cons.IH [OF this, of "i + 1" "acc @ [vs]"]
    obtain m where m: "m < length rest" "malformed 3 (rest ! m)"
      "\<forall>j < m. \<not> malformed 3 (rest ! j)"
      "read_instance_lines (i + 1) rest (acc @ [vs]) = Inl (ValueErrorAtLine (i + 1 + m + 1))"
      by blast
    have "\<forall>j < Suc m. \<not> malformed 3 ((line # rest) ! j)"
      using False m(3) by (auto simp: nth_Cons split: nat.splits)
    moreover have "read_instance_lines i (line # rest) acc = Inl (ValueErrorAtLine (i + Suc m + 1))"
      using vs m(4) by simp
    ultimately show ?thesis
      using m(1,2) by (intro exI [of _ "Suc m"]) simp
  qed
qed

lemma instance_file_malformed_line:
  assumes "fs path = Some f" and "\<exists>line \<in> set f. malformed 3 line"
  shows "\<exists>m < length f. malformed 3 (f ! m) \<and>
           InstancedCanopyElement_from_file fs (Some path) element = Inl (ValueErrorAtLine (m + 1)) \<and>
           error_line (ValueErrorAtLine (m + 1)) = Some (m + 1)"
proof -
  from read_instance_lines_malformed [OF assms(2), of 0 "[]"]
  obtain m where "m < length f" "malformed 3 (f ! m)"
    "read_instance_lines 0 f [] = Inl (ValueErrorAtLine (0 + m + 1))" by blast
  then show ?thesis
    using assms(1)
    by (intro exI [of _ m]) (simp add: InstancedCanopyElement_from_file_def error_line_def)
qed

text \<open>
  Claim C7. The leaf-cloud loader does not do the same. A line with eight numbers is
  malformed, and the file is loaded without any error, the eighth number being ignored;
  a line with a token that is not a number raises the conversion error of \<^verbatim>\<open>float\<close>,
  whose message names no line.
\<close>

theorem leaf_cloud_file_malformed_line_accepted:
  "LeafCloud_from_file
       (\<lambda>path. Some [[Num 1, Num 0, Num 0, Num 0, Num 0, Num 0, Num 1, Num 9]])
       (Some ''leaves.txt'') (1 / 2 :: real) (1 / 2) ''leaf_cloud''
     = Inr \<lparr>cloud_id = ''leaf_cloud'', leaf_positions = Array2 3 [[0, 0, 0]],
            leaf_orientations = Array2 3 [[Finite 0, Finite 0, Finite 1]], leaf_radii = [1],
            leaf_reflectance = 1 / 2, leaf_transmittance = 1 / 2\<rparr> \<and>
   LeafCloud_from_file
       (\<lambda>path. Some [[Word ''x'', Num 0, Num 0, Num 0, Num 0, Num 0, Num 1]])
       (Some ''leaves.txt'') (1 / 2 :: real) (1 / 2) ''leaf_cloud''
     = Inl (ValueError ''could not convert string to float'') \<and>
   error_line (ValueError ''could not convert string to float'') = None"
  by (simp add: LeafCloud_from_file_def py_float_def np_array_def LeafCloud_def
        positions_orientations_validator_def positions_orientations_radii_validator_def
        np_len_def is_n3_def is_positive_def error_line_def)

text \<open>Both lines are malformed lines of a leaf-cloud file, which has seven numbers per line.\<close>

lemma malformed_leaf_lines:
  "malformed 7 [Num 1, Num 0, Num 0, Num 0, Num 0, Num 0, Num 1, Num 9]"
  "malformed 7 [Word ''x'', Num 0, Num 0, Num 0, Num 0, Num 0, Num 1]"
  by (simp_all add: malformed_def is_numeric_def)

section \<open>Properties of the leaf cloud generators\<close>

text \<open>
  The sphere generator passes the radius where the sampler expects the leaf count and the
  leaf count where it expects the radius. The leaf count is not a quantity, so the call
  raises for every parameter set and no leaf cloud is ever produced.
\<close>

lemma sphere_never_constructs:
  "LeafCloud_sphere u params = Some (Inl strict_wraps_error)"
  by (simp add: LeafCloud_sphere_def leaf_cloud_positions_sphere_def quantity_arg_def
        int_arg_def split: option.splits)

text \<open>
  Claim C2. The sphere generator, asked for 3 leaves of radius 0.1 in a sphere of radius
  1, does not return a leaf cloud with 3 positions, 3 orientations and 3 radii: it
  raises.
\<close>

theorem sphere_generator_fails:
  "LeafCloud_sphere (\<lambda>_. 1 / 2)
     \<lparr>params_id = ''leaf_cloud'', params_leaf_reflectance = (1 / 2 :: real),
      params_leaf_transmittance = 1 / 2, params_mu = 1, params_nu = 1,
      params_n_leaves = Some 3, params_leaf_radius = Some (1 / 10), sphere_radius = 1\<rparr>
   = Some (Inl strict_wraps_error)"
  by (simp add: LeafCloud_sphere_def leaf_cloud_positions_sphere_def quantity_arg_def
        int_arg_def)

text \<open>
  The cylinder and cone generators, which pass the leaf count first, do satisfy the
  count invariant whenever they return a leaf cloud, and the cylinder generator does
  return one.
\<close>

lemma leaf_cloud_tail_count:
  assumes "leaf_cloud_tail params u positions k = Some (Inr lc)"
  shows "\<exists>n. params_n_leaves params = Some n \<and> 0 \<le> n \<and>
           leaf_positions lc = array_of_triples positions \<and>
           np_len (leaf_positions lc) = Inr (nat n) \<and>
           np_len (leaf_orientations lc) = Inr (nat n) \<and>
           length (leaf_radii lc) = nat n"
proof -
  from assms obtain orientations k' radii where
    o: "orientations_arg (int_arg (params_n_leaves params)) (params_mu params)
          (params_nu params) u k = Some (Inr (orientations, k'))"
    and r: "leaf_cloud_radii (int_arg (params_n_leaves params))
              (length_arg (params_leaf_radius params)) = Inr radii"
    and c: "LeafCloud (params_id params) (array_of_triples positions)
              (array_of_triples orientations) radii
              (params_leaf_reflectance params) (params_leaf_transmittance params) = Inr lc"
    by (auto simp: leaf_cloud_tail_def split: option.splits sum.splits prod.splits)
  from r obtain n where n: "params_n_leaves params = Some n" "0 \<le> n" "length radii = nat n"
    by (auto simp: leaf_cloud_radii_def count_arg_def int_arg_def
             split: option.splits sum.splits pyval.splits if_splits)
  from c have "positions_orientations_radii_validator (array_of_triples positions)
                 (array_of_triples orientations) radii = Inr ()"
    and lc: "leaf_positions lc = array_of_triples positions"
      "leaf_orientations lc = array_of_triples orientations" "leaf_radii lc = radii"
    by (auto simp: LeafCloud_def split: sum.splits if_splits)
  then have "length positions = length radii" "length orientations = length radii"
    by (auto simp: positions_orientations_radii_validator_def np_len_def array_of_triples_def
             split: if_splits)
  with n lc show ?thesis by (simp add: np_len_def array_of_triples_def)
qed

lemma cylinder_count:
  assumes "LeafCloud_cylinder u params = Some (Inr lc)"
  shows "\<exists>n. params_n_leaves params = Some n \<and> 0 \<le> n \<and>
           np_len (leaf_positions lc) = Inr (nat n) \<and>
           np_len (leaf_orientations lc) = Inr (nat n) \<and>
           length (leaf_radii lc) = nat n"
proof -
  from assms obtain positions k where "leaf_cloud_tail params u positions k = Some (Inr lc)"
    by (auto simp: LeafCloud_cylinder_def split: sum.splits prod.splits)
  from leaf_cloud_tail_count [OF this] show ?thesis by blast
qed

lemma cone_count:
  assumes "LeafCloud_cone u params = Some (Inr lc)"
  shows "\<exists>n. params_n_leaves params = Some n \<and> 0 \<le> n \<and>
           np_len (leaf_positions lc) = Inr (nat n) \<and>
           np_len (leaf_orientations lc) = Inr (nat n) \<and>
           length (leaf_radii lc) = nat n"
proof -
  from assms obtain positions k where "leaf_cloud_tail params u positions k = Some (Inr lc)"
    by (auto simp: LeafCloud_cone_def split: sum.splits prod.splits)
  from leaf_cloud_tail_count [OF this] show ?thesis by blast
qed

lemma cylinder_constructs:
  "LeafCloud_cylinder (\<lambda>_. 1 / 4)
     \<lparr>params_id = ''leaf_cloud'', params_leaf_reflectance = (1 / 2 :: real),
      params_leaf_transmittance = 1 / 2, params_mu = 1, params_nu = 1,
      params_n_leaves = Some 1, params_leaf_radius = Some (1 / 10),
      cylinder_radius = 1, cylinder_l_vertical = 1\<rparr>
   = Some (Inr \<lparr>cloud_id = ''leaf_cloud'',
        leaf_positions =
          Array2 3 [[1 / 4 * cos (1 / 4 * 2 * pi), 1 / 4 * sin (1 / 4 * 2 * pi), 1 / 4]],
        leaf_orientations = array_of_triples [orientation (Finite (rad2deg (1 / 2))) 90],
        leaf_radii = [1 / 10],
        leaf_reflectance = 1 / 2, leaf_transmittance = 1 / 2\<rparr>)"
proof -
  have ib: "inversebeta 1 1 (\<lambda>_. 1 / 4) 3 = Some (Inr (Finite (1 / 2), 5))"
    by (subst inversebeta.simps) (simp add: Let_def np_divide_def)
  show ?thesis
    by (simp add: LeafCloud_cylinder_def leaf_cloud_positions_cylinder_def quantity_arg_def
          count_arg_def int_arg_def length_arg_def np_empty_def np_empty_rows_def random3_def
          Let_def leaf_cloud_tail_def orientations_arg_def leaf_cloud_orientations_def ib
          np_rad2deg_def leaf_cloud_radii_def LeafCloud_def is_positive_def
          positions_orientations_validator_def positions_orientations_radii_validator_def
          np_len_def is_n3_def array_of_triples_def)
qed

end
